theory Spec2Isabelle
  imports Complex_Main
begin

section \<open>Python floats\<close>

text \<open>
  A Python float is a real number, one of the two infinities, or NaN. Arithmetic on
  numbers is exact: rounding and overflow are left out. An operation with a NaN
  operand gives NaN, and every ordering comparison with NaN is false. Python raises
  \<open>ZeroDivisionError\<close> on a quotient by zero; the quotient is given the value NaN
  there, and the one division of the source whose divisor is not a literal is
  guarded where it is made.
\<close>

datatype pyfloat = Finite real | PosInf | NegInf | NaN

definition is_finite :: "pyfloat \<Rightarrow> bool" where
  "is_finite x = (case x of Finite r \<Rightarrow> True | _ \<Rightarrow> False)"

fun sign_of :: "pyfloat \<Rightarrow> real" where
  "sign_of (Finite r) = sgn r"
| "sign_of PosInf = 1"
| "sign_of NegInf = - 1"
| "sign_of NaN = 0"

definition signed_inf :: "real \<Rightarrow> pyfloat" where
  "signed_inf s = (if s = 0 then NaN else if 0 < s then PosInf else NegInf)"

instantiation pyfloat :: "{zero, one, plus, uminus, minus, times, inverse, abs, ord}"
begin

definition zero_pyfloat :: pyfloat where
  "zero_pyfloat = Finite 0"

definition one_pyfloat :: pyfloat where
  "one_pyfloat = Finite 1"

fun plus_pyfloat :: "pyfloat \<Rightarrow> pyfloat \<Rightarrow> pyfloat" where
  "plus_pyfloat (Finite x) (Finite y) = Finite (x + y)"
| "plus_pyfloat NaN b = NaN"
| "plus_pyfloat a NaN = NaN"
| "plus_pyfloat PosInf NegInf = NaN"
| "plus_pyfloat NegInf PosInf = NaN"
| "plus_pyfloat PosInf b = PosInf"
| "plus_pyfloat a PosInf = PosInf"
| "plus_pyfloat NegInf b = NegInf"
| "plus_pyfloat a NegInf = NegInf"

fun uminus_pyfloat :: "pyfloat \<Rightarrow> pyfloat" where
  "uminus_pyfloat (Finite x) = Finite (- x)"
| "uminus_pyfloat PosInf = NegInf"
| "uminus_pyfloat NegInf = PosInf"
| "uminus_pyfloat NaN = NaN"

definition minus_pyfloat :: "pyfloat \<Rightarrow> pyfloat \<Rightarrow> pyfloat" where
  "minus_pyfloat a b = a + (- b)"

fun times_pyfloat :: "pyfloat \<Rightarrow> pyfloat \<Rightarrow> pyfloat" where
  "times_pyfloat (Finite x) (Finite y) = Finite (x * y)"
| "times_pyfloat NaN b = NaN"
| "times_pyfloat a NaN = NaN"
| "times_pyfloat a b = signed_inf (sign_of a * sign_of b)"

fun divide_pyfloat :: "pyfloat \<Rightarrow> pyfloat \<Rightarrow> pyfloat" where
  "divide_pyfloat (Finite x) (Finite y) = (if y = 0 then NaN else Finite (x / y))"
| "divide_pyfloat NaN b = NaN"
| "divide_pyfloat a NaN = NaN"
| "divide_pyfloat (Finite x) b = Finite 0"
| "divide_pyfloat a (Finite y) = signed_inf (sign_of a * sgn y)"
| "divide_pyfloat a b = NaN"

fun inverse_pyfloat :: "pyfloat \<Rightarrow> pyfloat" where
  "inverse_pyfloat (Finite x) = (if x = 0 then NaN else Finite (inverse x))"
| "inverse_pyfloat NaN = NaN"
| "inverse_pyfloat a = Finite 0"

fun abs_pyfloat :: "pyfloat \<Rightarrow> pyfloat" where
  "abs_pyfloat (Finite x) = Finite \<bar>x\<bar>"
| "abs_pyfloat NaN = NaN"
| "abs_pyfloat a = PosInf"

fun less_eq_pyfloat :: "pyfloat \<Rightarrow> pyfloat \<Rightarrow> bool" where
  "less_eq_pyfloat (Finite x) (Finite y) = (x \<le> y)"
| "less_eq_pyfloat NaN b = False"
| "less_eq_pyfloat a NaN = False"
| "less_eq_pyfloat NegInf b = True"
| "less_eq_pyfloat a PosInf = True"
| "less_eq_pyfloat a b = False"

definition less_pyfloat :: "pyfloat \<Rightarrow> pyfloat \<Rightarrow> bool" where
  "less_pyfloat a b = (a \<le> b \<and> \<not> b \<le> a)"

instance ..

end

instance pyfloat :: semigroup_add
proof
  fix a b c :: pyfloat
  show "a + b + c = a + (b + c)"
    by (cases a; cases b; cases c) simp_all
qed

instance pyfloat :: numeral ..

instance pyfloat :: power ..

text \<open>\<open>math.sqrt\<close>, which raises on a negative number; the source calls it on 3.\<close>

fun math_sqrt :: "pyfloat \<Rightarrow> pyfloat" where
  "math_sqrt (Finite x) = (if x < 0 then NaN else Finite (sqrt x))"
| "math_sqrt PosInf = PosInf"
| "math_sqrt a = NaN"

section \<open>Geometry of the feature profiles\<close>

text \<open>
  A point (\<open>gp_Pnt\<close>) and a vector (\<open>gp_Vec\<close>, \<open>gp_Dir\<close>) are triples of
  float coordinates.
\<close>

type_synonym pnt = "pyfloat \<times> pyfloat \<times> pyfloat"
type_synonym vec = "pyfloat \<times> pyfloat \<times> pyfloat"

definition px :: "pnt \<Rightarrow> pyfloat" where "px p = fst p"
definition py :: "pnt \<Rightarrow> pyfloat" where "py p = fst (snd p)"
definition pz :: "pnt \<Rightarrow> pyfloat" where "pz p = snd (snd p)"

definition translate :: "vec \<Rightarrow> pnt \<Rightarrow> pnt" where
  "translate v p = (px p + px v, py p + py v, pz p + pz v)"

text \<open>
  A profile shape in its local frame is the term of kernel constructor calls that
  \<open>create_shape\<close> makes: \<open>BRepPrimAPI_MakeBox (corner, dx, dy, dz)\<close>,
  \<open>BRepPrimAPI_MakeCylinder\<close> on the axis through a point along +Z with a radius and
  a height, \<open>BRepPrimAPI_MakePrism\<close> of the triangular face through three points
  along a vector, and \<open>BRepBuilderAPI_Transform\<close> with a translation.
\<close>

datatype prim =
    MakeBox pnt pyfloat pyfloat pyfloat
  | MakeCylinder pnt pyfloat pyfloat
  | MakePrism pnt pnt pnt vec
  | Translated prim vec

text \<open>
  The axis-aligned bounds of such a term, for positive dimensions: a box spans from
  its corner by its three edge lengths, a Z-axis cylinder spans its radius around
  the axis and its height above the base point, a prism spans its face and the
  face moved by the extrusion vector.
\<close>

definition min3 :: "pyfloat \<Rightarrow> pyfloat \<Rightarrow> pyfloat \<Rightarrow> pyfloat" where
  "min3 a b c = min a (min b c)"

definition max3 :: "pyfloat \<Rightarrow> pyfloat \<Rightarrow> pyfloat \<Rightarrow> pyfloat" where
  "max3 a b c = max a (max b c)"

fun bbox_min :: "prim \<Rightarrow> pnt" where
  "bbox_min (MakeBox p dx dy dz) = p"
| "bbox_min (MakeCylinder p r h) = (px p - r, py p - r, pz p)"
| "bbox_min (MakePrism a b c v) =
     (min (min3 (px a) (px b) (px c)) (min3 (px a) (px b) (px c) + px v),
      min (min3 (py a) (py b) (py c)) (min3 (py a) (py b) (py c) + py v),
      min (min3 (pz a) (pz b) (pz c)) (min3 (pz a) (pz b) (pz c) + pz v))"
| "bbox_min (Translated s v) = translate v (bbox_min s)"

fun bbox_max :: "prim \<Rightarrow> pnt" where
  "bbox_max (MakeBox p dx dy dz) = (px p + dx, py p + dy, pz p + dz)"
| "bbox_max (MakeCylinder p r h) = (px p + r, py p + r, pz p + h)"
| "bbox_max (MakePrism a b c v) =
     (max (max3 (px a) (px b) (px c)) (max3 (px a) (px b) (px c) + px v),
      max (max3 (py a) (py b) (py c)) (max3 (py a) (py b) (py c) + py v),
      max (max3 (pz a) (pz b) (pz c)) (max3 (pz a) (pz b) (pz c) + pz v))"
| "bbox_max (Translated s v) = translate v (bbox_max s)"

definition z_near :: "prim \<Rightarrow> pyfloat" where "z_near s = pz (bbox_max s)"
definition z_far :: "prim \<Rightarrow> pyfloat" where "z_far s = pz (bbox_min s)"
definition y_extent :: "prim \<Rightarrow> pyfloat" where "y_extent s = py (bbox_max s) - py (bbox_min s)"


section \<open>groove_generator.py\<close>

datatype GrooveType = RECTANGULAR | CIRCULAR | SQUARE | TRIANGLE

text \<open>
  \<open>GrooveParameters\<close>: the field \<open>length\<close> is written \<open>glength\<close> and the field
  \<open>type\<close> is written \<open>gtype\<close>.
\<close>

record GrooveParameters =
  width :: pyfloat
  depth :: pyfloat
  height :: pyfloat
  glength :: pyfloat
  gtype :: GrooveType
  fillet_radius :: pyfloat

text \<open>The dataclass defaults: 2.0, 1.0, 10.0, 10.0, RECTANGULAR, 0.0.\<close>

definition GrooveParameters_default :: GrooveParameters where
  "GrooveParameters_default =
     \<lparr>width = 2, depth = 1, height = 10, glength = 10, gtype = RECTANGULAR, fillet_radius = 0\<rparr>"

text \<open>
  \<open>GrooveGenerator.create_shape\<close>. The four kinds of the enumeration are all handled,
  so the final \<open>raise NotImplementedError\<close> has no input.
\<close>

definition create_shape :: "GrooveParameters \<Rightarrow> prim" where
  "create_shape p =
     (case gtype p of
        RECTANGULAR \<Rightarrow>
          (let w = width p; l = glength p; d = depth p
           in MakeBox (- w / 2, - l / 2, - d) w l d)
      | CIRCULAR \<Rightarrow>
          (let r = width p / 2; d = depth p
           in MakeCylinder (0, 0, - d) r d)
      | SQUARE \<Rightarrow>
          (let w = width p; d = depth p
           in MakeBox (- w / 2, - w / 2, - d) w w d)
      | TRIANGLE \<Rightarrow>
          (let w = width p; l = glength p; d = depth p;
               h = (w * math_sqrt 3) / 2;
               p1 = (- w / 2, 0, - d);
               p2 = (w / 2, 0, - d);
               p3 = (0, 0, - d + h)
           in Translated (MakePrism p1 p2 p3 (0, l, 0)) (0, - l / 2, 0)))"

text \<open>
  Shapes of the pipeline are the terms of the kernel operations that made them: the
  shape read from a file, \<open>MakeThickSolidByJoin\<close> with its offset, \<open>Reverse\<close>, a
  profile placed by a rotation of local Z onto a normal followed by a translation
  to a location, and the boolean operations with their fuzzy value.
\<close>

datatype shape =
    OneShape string
  | ThickSolid shape pyfloat
  | Reversed shape
  | Placed prim pnt vec
  | Fuse shape shape pyfloat
  | Cut shape shape pyfloat

text \<open>
  \<open>GrooveGenerator.place_shape\<close>: the tangent branch of the source is \<open>pass\<close>, so the
  tangent and the kind have no effect on the transformation.
\<close>

definition place_shape :: "GrooveParameters \<Rightarrow> prim \<Rightarrow> pnt \<Rightarrow> vec \<Rightarrow> vec option \<Rightarrow> shape" where
  "place_shape p s location normal tangent = Placed s location normal"

section \<open>clip_generator.py\<close>

text \<open>\<open>ClipParameters\<close>: the field \<open>height\<close> is written \<open>cheight\<close>.\<close>

record ClipParameters =
  groove_params :: GrooveParameters
  cheight :: pyfloat
  assembly_clearance :: pyfloat
  retention_offset :: pyfloat

text \<open>
  A message is the sequence of the pieces of its f-string: literal text and the
  numbers formatted into it.
\<close>

datatype piece = Txt string | Num pyfloat | Fix4 pyfloat

type_synonym msg = "piece list"

definition validate :: "ClipParameters \<Rightarrow> bool \<times> msg" where
  "validate c =
     (if cheight c \<le> 0 then (False, [Txt ''Clip height must be positive''])
      else if assembly_clearance c \<ge> width (groove_params c) then
        (False, [Txt ''Assembly clearance ('', Num (assembly_clearance c),
                 Txt ''mm) must be less than groove width ('',
                 Num (width (groove_params c)), Txt ''mm)''])
      else if retention_offset c \<ge> depth (groove_params c) then
        (False, [Txt ''Retention offset ('', Num (retention_offset c),
                 Txt ''mm) must be less than groove depth ('',
                 Num (depth (groove_params c)), Txt ''mm)''])
      else
        (let clip_width = width (groove_params c) - assembly_clearance c;
             clip_depth = depth (groove_params c) - retention_offset c
         in if clip_width \<le> 0 then
              (False, [Txt ''Calculated clip width ('', Num clip_width,
                       Txt ''mm) must be positive''])
            else if clip_depth \<le> 0 then
              (False, [Txt ''Calculated clip depth ('', Num clip_depth,
                       Txt ''mm) must be positive''])
            else (True, [Txt ''Valid''])))"

datatype error = ZeroDivisionError

text \<open>
  \<open>ClipGenerator\<close>: its parameters and the memoised \<open>_derived_groove_params\<close>,
  \<open>None\<close> after \<open>__init__\<close>.
\<close>

record ClipGenerator =
  params :: ClipParameters
  derived_groove_params :: "GrooveParameters option"

definition ClipGenerator_init :: "ClipParameters \<Rightarrow> ClipGenerator" where
  "ClipGenerator_init c = \<lparr>params = c, derived_groove_params = None\<rparr>"

text \<open>
  \<open>derive_from_groove\<close> returns the derived parameters and the generator with its
  cache filled. The quotient of the fillet scaling is evaluated only for a positive
  source fillet radius, and raises on a zero source width.
\<close>

definition derive_from_groove :: "ClipGenerator \<Rightarrow> error + (GrooveParameters \<times> ClipGenerator)" where
  "derive_from_groove g =
     (case derived_groove_params g of
        Some d \<Rightarrow> Inr (d, g)
      | None \<Rightarrow>
          (let gp = groove_params (params g);
               clip_width = width gp - assembly_clearance (params g);
               clip_depth = depth gp - retention_offset (params g)
           in if fillet_radius gp > 0 \<and> width gp = 0 then Inl ZeroDivisionError
              else
                (let d = \<lparr>width = clip_width,
                          depth = clip_depth,
                          height = cheight (params g),
                          glength = cheight (params g),
                          gtype = gtype gp,
                          fillet_radius =
                            (if fillet_radius gp > 0
                             then fillet_radius gp * (clip_width / width gp)
                             else 0)\<rparr>
                 in Inr (d, g\<lparr>derived_groove_params := Some d\<rparr>))))"

text \<open>\<open>ClipGenerator.create_shape\<close>: the derived profile, shifted by the retention offset.\<close>

definition clip_create_shape :: "ClipGenerator \<Rightarrow> error + (prim \<times> ClipGenerator)" where
  "clip_create_shape g =
     (case derive_from_groove g of
        Inl e \<Rightarrow> Inl e
      | Inr (derived_params, g') \<Rightarrow>
          (let shape = create_shape derived_params
           in if retention_offset (params g') \<noteq> 0
              then Inr (Translated shape (0, 0, - retention_offset (params g')), g')
              else Inr (shape, g')))"

text \<open>\<open>ClipGenerator.place_shape\<close> derives (from the cache) and reuses the groove placement.\<close>

definition clip_place_shape ::
  "ClipGenerator \<Rightarrow> prim \<Rightarrow> pnt \<Rightarrow> vec \<Rightarrow> vec option \<Rightarrow> error + (shape \<times> ClipGenerator)" where
  "clip_place_shape g s location normal tangent =
     (case derive_from_groove g of
        Inl e \<Rightarrow> Inl e
      | Inr (derived_params, g') \<Rightarrow>
          Inr (place_shape derived_params s location normal tangent, g'))"

section \<open>runtime_input.py\<close>

text \<open>
  The dictionary returned by \<open>collect_all_inputs\<close> and read by \<open>run_pipeline\<close>, with
  every key present.
\<close>

record runtime_params =
  rp_thickness :: pyfloat
  rp_groove_count :: int
  rp_groove_shape :: GrooveType
  rp_groove_height :: pyfloat
  rp_groove_width :: pyfloat
  rp_groove_depth :: pyfloat
  rp_clip_height :: pyfloat
  rp_assembly_clearance :: pyfloat
  rp_retention_offset :: pyfloat

text \<open>
  \<open>get_groove_count\<close> on one line of input already parsed as an integer: the empty
  line gives the default 10, a number from 1 to 100 is accepted, any other is asked
  again (\<open>None\<close>).
\<close>

definition get_groove_count :: "int option \<Rightarrow> int option" where
  "get_groove_count line =
     (case line of
        None \<Rightarrow> Some 10
      | Some val \<Rightarrow> (if 1 \<le> val \<and> val \<le> 100 then Some val else None))"

section \<open>gen_cad_pipeline.py\<close>

definition REFERENCE_CENTROIDS :: "pnt list" where
  "REFERENCE_CENTROIDS =
     [(596.11, 736.90, 567.51),
      (636.55, 720.73, 621.51),
      (632.55, 729.38, 737.43),
      (616.76, 728.60, 739.97),
      (676.99, 701.09, 758.84),
      (658.10, 707.92, 797.84),
      (623.97, 717.39, 819.96)]"

text \<open>The slice \<open>xs[:n]\<close> of Python, also for a negative \<open>n\<close>.\<close>

definition slice_to :: "int \<Rightarrow> 'a list \<Rightarrow> 'a list" where
  "slice_to n xs =
     (if 0 \<le> n then take (nat n) xs else take (nat (int (length xs) + n)) xs)"

text \<open>
  The answer of the closest-point query for one target: no solution, a closest
  point whose support is not a face, or a closest point on a face with the normal
  there when it is defined.
\<close>

datatype nearest = NoSolution | OnOther pnt | OnFace pnt "vec option"

text \<open>
  The geometry kernel is a parameter of the pipeline. It reports the status of
  reading and writing, validity, the presence of faces, whether the operation that
  builds a shape is done, the volume of a shape, the mass of a property set on which
  nothing was computed, the distance of two shapes, the closest-point query, and
  the text of the exception when the preview export raises. The boolean and offset
  operations answer through \<open>is_done\<close>; an exception inside a bulk attempt, which
  the source catches before running the fallback, is read as an operation that is
  not done.
\<close>

record kernel =
  read_file :: "string \<Rightarrow> int"
  is_valid :: "shape \<Rightarrow> bool"
  has_faces :: "shape \<Rightarrow> bool"
  is_done :: "shape \<Rightarrow> bool"
  mass :: "shape \<Rightarrow> pyfloat"
  empty_mass :: pyfloat
  min_distance :: "shape \<Rightarrow> shape \<Rightarrow> pyfloat"
  closest :: "pnt \<Rightarrow> shape \<Rightarrow> nearest"
  write_step :: "string \<Rightarrow> shape \<Rightarrow> int"
  write_stl :: "string \<Rightarrow> shape \<Rightarrow> string option"

text \<open>
  What a run does is recorded in order: the lines it logs, the file it reads, the
  kernel operations it attempts, the closest-point queries, the profile shapes it
  constructs, and the files it writes.
\<close>

datatype event =
    Log string msg
  | ReadFile string
  | Op shape
  | Query pnt
  | Made prim
  | WriteStep string shape
  | WriteStl string shape

definition check_validity :: "kernel \<Rightarrow> shape \<Rightarrow> string \<Rightarrow> bool \<times> event list" where
  "check_validity k s name =
     (if is_valid k s
      then (True, [Log ''Validation'' [Txt name, Txt '' is VALID.'']])
      else (False, [Log ''Validation'' [Txt name, Txt '' is INVALID.'']]))"

text \<open>The local function \<open>thicken\<close> of \<open>run_pipeline\<close>.\<close>

definition thicken :: "kernel \<Rightarrow> shape \<Rightarrow> pyfloat \<Rightarrow> shape option \<times> event list" where
  "thicken k s t =
     (let b = ThickSolid s t
      in (if is_done k b then Some b else None, [Op b]))"

text \<open>
  Phase 2 up to the orientation check: \<open>None\<close> when both directions failed.
\<close>

definition phase2 :: "kernel \<Rightarrow> shape \<Rightarrow> pyfloat \<Rightarrow> shape option \<times> event list" where
  "phase2 k input_shape thickness =
     (case thicken k input_shape (- \<bar>thickness\<bar>) of (b1, e1) \<Rightarrow>
      case (if b1 = None
            then (case thicken k input_shape \<bar>thickness\<bar> of (b, e) \<Rightarrow>
                    (b, Log ''Phase 2''
                          [Txt ''Thickening failed with negative offset. Trying positive...''] # e))
            else (b1, [])) of (b2, e2) \<Rightarrow>
      case b2 of
        None \<Rightarrow>
          (None, e1 @ e2 @
             [Log ''Phase 2'' [Txt ''Critical Error: Thickening failed in both directions.'']])
      | Some thickened_body \<Rightarrow>
          (if mass k thickened_body < 0
           then (Some (Reversed thickened_body), e1 @ e2 @
                   [Log ''Phase 2'' [Txt ''Notice: Negative Volume detected. Reversing orientation...'']])
           else (Some thickened_body, e1 @ e2)))"

text \<open>
  One turn of the placement loop, on the clip generator and the two lists collected
  so far.
\<close>

definition place_one ::
  "kernel \<Rightarrow> GrooveParameters \<Rightarrow> shape \<Rightarrow> pnt \<Rightarrow> ClipGenerator \<times> shape list \<times> shape list \<Rightarrow>
   (error + (ClipGenerator \<times> shape list \<times> shape list)) \<times> event list" where
  "place_one k gp thickened_body target st =
     (case st of (cg, grooves_to_cut, clips_to_fuse) \<Rightarrow>
      case closest k target thickened_body of
        OnFace closest_pnt (Some normal) \<Rightarrow>
          (let groove_shape = create_shape gp;
               placed_groove = place_shape gp groove_shape closest_pnt normal None
           in case clip_create_shape cg of
                Inl e \<Rightarrow> (Inl e, [Query target, Made groove_shape])
              | Inr (clip_shape, cg1) \<Rightarrow>
                  (case clip_place_shape cg1 clip_shape closest_pnt normal None of
                     Inl e \<Rightarrow> (Inl e, [Query target, Made groove_shape, Made clip_shape])
                   | Inr (placed_clip, cg2) \<Rightarrow>
                       (Inr (cg2, grooves_to_cut @ [placed_groove], clips_to_fuse @ [placed_clip]),
                        [Query target, Made groove_shape, Made clip_shape])))
      | _ \<Rightarrow> (Inr st, [Query target]))"

fun place_all ::
  "kernel \<Rightarrow> GrooveParameters \<Rightarrow> shape \<Rightarrow> pnt list \<Rightarrow> ClipGenerator \<times> shape list \<times> shape list \<Rightarrow>
   (error + (ClipGenerator \<times> shape list \<times> shape list)) \<times> event list" where
  "place_all k gp body [] st = (Inr st, [])"
| "place_all k gp body (t # ts) st =
     (case place_one k gp body t st of
        (Inl e, ev) \<Rightarrow> (Inl e, ev)
      | (Inr st', ev) \<Rightarrow>
          (case place_all k gp body ts st' of (r, ev') \<Rightarrow> (r, ev @ ev')))"

text \<open>
  The pre-combination of the bulk strategy: the tools after the first are fused one
  by one into the tool body, a fusion that is not done leaving it as it is.
\<close>

fun combine_tools :: "kernel \<Rightarrow> shape \<Rightarrow> shape list \<Rightarrow> shape \<times> event list" where
  "combine_tools k tool_body [] = (tool_body, [])"
| "combine_tools k tool_body (t # ts) =
     (let fuser = Fuse tool_body t 0.1
      in case combine_tools k (if is_done k fuser then fuser else tool_body) ts of
           (r, ev) \<Rightarrow> (r, Op fuser # ev))"

text \<open>The sequential fallbacks: one cut, or one fusion, per tool on a running solid.\<close>

fun sequential_cut :: "kernel \<Rightarrow> shape \<Rightarrow> shape list \<Rightarrow> shape \<times> event list" where
  "sequential_cut k temp_solid [] = (temp_solid, [])"
| "sequential_cut k temp_solid (tool # tools) =
     (let cutter = Cut temp_solid tool 0.1
      in case sequential_cut k (if is_done k cutter then cutter else temp_solid) tools of
           (r, ev) \<Rightarrow> (r, Op cutter # ev))"

fun sequential_fuse :: "kernel \<Rightarrow> shape \<Rightarrow> shape list \<Rightarrow> shape \<times> event list" where
  "sequential_fuse k temp_solid [] = (temp_solid, [])"
| "sequential_fuse k temp_solid (clip # clips) =
     (let fuser = Fuse temp_solid clip 0.1
      in case sequential_fuse k (if is_done k fuser then fuser else temp_solid) clips of
           (r, ev) \<Rightarrow> (r, Op fuser # ev))"

text \<open>
  The groove cut. The bulk cut is accepted when it is done and the mass of a
  freshly constructed property set differs from zero.
\<close>

definition cut_grooves :: "kernel \<Rightarrow> shape \<Rightarrow> shape list \<Rightarrow> shape \<times> event list" where
  "cut_grooves k thickened_body grooves_to_cut =
     (case grooves_to_cut of
        [] \<Rightarrow> (thickened_body, [])
      | g # gs \<Rightarrow>
          (case combine_tools k g gs of (tool_body, e1) \<Rightarrow>
             (let cutter = Cut thickened_body tool_body 0.1;
                  valid_cut = (is_done k cutter \<and> empty_mass k \<noteq> 0)
              in if valid_cut then (cutter, e1 @ [Op cutter])
                 else (case sequential_cut k thickened_body grooves_to_cut of
                         (temp_solid, e2) \<Rightarrow> (temp_solid, e1 @ [Op cutter] @ e2)))))"

text \<open>The clip fusion. The bulk fusion is accepted when it is done.\<close>

definition fuse_clips :: "kernel \<Rightarrow> shape \<Rightarrow> shape list \<Rightarrow> shape \<times> event list" where
  "fuse_clips k final_solid clips_to_fuse =
     (case clips_to_fuse of
        [] \<Rightarrow> (final_solid, [])
      | c # cs \<Rightarrow>
          (case combine_tools k c cs of (clip_body, e1) \<Rightarrow>
             (let fuser = Fuse final_solid clip_body 0.1;
                  valid_fuse = is_done k fuser
              in if valid_fuse then (fuser, e1 @ [Op fuser])
                 else (case sequential_fuse k final_solid clips_to_fuse of
                         (temp_solid, e2) \<Rightarrow> (temp_solid, e1 @ [Op fuser] @ e2)))))"

text \<open>
  \<open>str.replace\<close> for a pattern that is not empty, as the two patterns of the preview
  path are: the occurrences are replaced from the left, without overlap.
\<close>

function replace :: "string \<Rightarrow> string \<Rightarrow> string \<Rightarrow> string" where
  "replace old new s =
     (if s = [] then []
      else if old \<noteq> [] \<and> take (length old) s = old
      then new @ replace old new (drop (length old) s)
      else hd s # replace old new (tl s))"
  by pat_completeness auto
termination
  by (relation "measure (\<lambda>(old, new, s). length s)") auto

declare replace.simps [simp del]

text \<open>Phase 3: the deviation of the thickened body from the input is only logged.\<close>

definition phase3 :: "kernel \<Rightarrow> shape \<Rightarrow> shape \<Rightarrow> event list" where
  "phase3 k input_shape thickened_body =
     Log ''Phase 3'' [Txt ''Verifying outer geometry preservation...''] #
     (let dev = min_distance k input_shape thickened_body
      in if dev > 1 / 1000
         then [Log ''Phase 3'' [Txt ''Warning: Deviation '', Fix4 dev, Txt ''mm detected.'']]
         else [])"

text \<open>The parameters that \<open>run_pipeline\<close> builds from the runtime dictionary.\<close>

definition pipeline_groove_params :: "runtime_params \<Rightarrow> GrooveParameters" where
  "pipeline_groove_params rp =
     GrooveParameters_default
       \<lparr>width := rp_groove_width rp,
        depth := rp_groove_depth rp,
        height := rp_groove_height rp,
        glength := rp_groove_height rp,
        gtype := rp_groove_shape rp\<rparr>"

definition pipeline_clip_params :: "runtime_params \<Rightarrow> ClipParameters" where
  "pipeline_clip_params rp =
     \<lparr>groove_params = pipeline_groove_params rp,
      cheight = rp_clip_height rp,
      assembly_clearance = rp_assembly_clearance rp,
      retention_offset = rp_retention_offset rp\<rparr>"

text \<open>
  Phase 6: the STEP file is written, then the preview, whose failure is only
  logged; the result is decided by the status of the STEP write.
\<close>

definition phase6 :: "kernel \<Rightarrow> shape \<Rightarrow> string \<Rightarrow> (bool \<times> msg) \<times> event list" where
  "phase6 k final_solid output_path =
     (let status = write_step k output_path final_solid;
          stl_path = replace ''.step'' ''.stl'' (replace ''.stp'' ''.stl'' output_path);
          ev = [Log ''Phase 6'' [Txt ''Exporting to '', Txt output_path, Txt ''...''],
                WriteStep output_path final_solid,
                Log ''Phase 6'' [Txt ''Generating preview STL: '', Txt stl_path]] @
               (case write_stl k stl_path final_solid of
                  None \<Rightarrow> [WriteStl stl_path final_solid]
                | Some e \<Rightarrow>
                    [Log ''Phase 6'' [Txt ''Warning: Could not generate STL preview: '', Txt e]])
      in if status = 1 then ((True, [Txt ''Success'']), ev)
         else ((False, [Txt ''Export Failed'']), ev))"

text \<open>
  Phases 4 to 6, on the thickened body. The value of the final \<open>check_validity\<close>
  is not bound by the source: only its log line remains.
\<close>

definition phase4_to_6 ::
  "kernel \<Rightarrow> shape \<Rightarrow> string \<Rightarrow> runtime_params \<Rightarrow> (error + (bool \<times> msg)) \<times> event list" where
  "phase4_to_6 k thickened_body output_path rp =
     (let groove_parameters = pipeline_groove_params rp;
          clip_params = pipeline_clip_params rp;
          e4 = [Log ''Phase 4'' [Txt ''Generating Parametric Grooves...'']]
      in case validate clip_params of (valid, m) \<Rightarrow>
         if \<not> valid then
           (Inr (False, Txt ''Invalid clip parameters: '' # m),
            e4 @ [Log ''Phase 4'' (Txt ''Critical Error: Invalid clip parameters - '' # m)])
         else
           (let target_count = rp_groove_count rp;
                locations_to_process = slice_to target_count REFERENCE_CENTROIDS
            in case place_all k groove_parameters thickened_body locations_to_process
                      (ClipGenerator_init clip_params, [], []) of
                 (Inl e, ev) \<Rightarrow> (Inl e, e4 @ ev)
               | (Inr (cg, grooves_to_cut, clips_to_fuse), ev) \<Rightarrow>
                   (case cut_grooves k thickened_body grooves_to_cut of (cut_solid, ec) \<Rightarrow>
                    case fuse_clips k cut_solid clips_to_fuse of (final_solid, ef) \<Rightarrow>
                    case check_validity k final_solid ''Final Output'' of (unused, e5) \<Rightarrow>
                    case phase6 k final_solid output_path of (res, e6) \<Rightarrow>
                      (Inr res,
                       e4 @ ev @ ec @ ef @
                       [Log ''Phase 5'' [Txt ''Validating Final Solid...'']] @ e5 @ e6))))"

definition run_pipeline ::
  "kernel \<Rightarrow> string \<Rightarrow> string \<Rightarrow> runtime_params \<Rightarrow> (error + (bool \<times> msg)) \<times> event list" where
  "run_pipeline k input_path output_path rp =
     (let thickness = rp_thickness rp;
          e0 = [Log ''Phase 1'' [Txt ''Loading '', Txt input_path, Txt ''...''],
                ReadFile input_path]
      in if read_file k input_path \<noteq> 1 then
           (Inr (False, [Txt ''Could not read STEP file.'']),
            e0 @ [Log ''Phase 1'' [Txt ''Error: Could not read file.'']])
         else
           (let input_shape = OneShape input_path
            in case check_validity k input_shape ''Input'' of (ok, e1) \<Rightarrow>
               if \<not> ok then
                 (Inr (False, [Txt ''Input geometry corrupted.'']),
                  e0 @ e1 @ [Log ''Phase 1'' [Txt ''Critical Error: Input geometry corrupted.'']])
               else
                 (let e1b = (if has_faces k input_shape then []
                             else [Log ''Phase 1''
                                     [Txt ''Warning: Input does not seem to contain faces.'']]);
                      e2a = [Log ''Phase 2''
                               [Txt ''Applying thickness '', Num thickness, Txt ''mm INWARD...'']]
                  in case phase2 k input_shape thickness of
                       (None, e2) \<Rightarrow>
                         (Inr (False, [Txt ''Thickening failed.'']), e0 @ e1 @ e1b @ e2a @ e2)
                     | (Some thickened_body, e2) \<Rightarrow>
                         (case phase4_to_6 k thickened_body output_path rp of (res, e4) \<Rightarrow>
                            (res, e0 @ e1 @ e1b @ e2a @ e2 @
                                  phase3 k input_shape thickened_body @ e4)))))"

text \<open>Readings of a record of events.\<close>

fun attempts :: "event list \<Rightarrow> shape list" where
  "attempts [] = []"
| "attempts (Op s # es) = s # attempts es"
| "attempts (e # es) = attempts es"

fun queries :: "event list \<Rightarrow> pnt list" where
  "queries [] = []"
| "queries (Query p # es) = p # queries es"
| "queries (e # es) = queries es"

fun constructed :: "event list \<Rightarrow> prim list" where
  "constructed [] = []"
| "constructed (Made s # es) = s # constructed es"
| "constructed (e # es) = constructed es"

fun exported :: "event list \<Rightarrow> (string \<times> shape) list" where
  "exported [] = []"
| "exported (WriteStep p s # es) = (p, s) # exported es"
| "exported (WriteStl p s # es) = (p, s) # exported es"
| "exported (e # es) = exported es"

fun phases :: "event list \<Rightarrow> string list" where
  "phases [] = []"
| "phases (Log ph m # es) = ph # phases es"
| "phases (e # es) = phases es"

text \<open>
  A kernel on which every operation succeeds, with a positive volume, the closest
  point of a target being the target itself on a face of normal +Z, and the mass of
  an empty property set zero.
\<close>

definition test_kernel :: kernel where
  "test_kernel =
     \<lparr>read_file = (\<lambda>p. 1),
      is_valid = (\<lambda>s. True),
      has_faces = (\<lambda>s. True),
      is_done = (\<lambda>s. True),
      mass = (\<lambda>s. 1),
      empty_mass = 0,
      min_distance = (\<lambda>a b. 0),
      closest = (\<lambda>p s. OnFace p (Some (0, 0, 1))),
      write_step = (\<lambda>p s. 1),
      write_stl = (\<lambda>p s. None)\<rparr>"

text \<open>The end-to-end parameters of the design, with one target point.\<close>

definition test_params :: runtime_params where
  "test_params =
     \<lparr>rp_thickness = 2.65,
      rp_groove_count = 1,
      rp_groove_shape = RECTANGULAR,
      rp_groove_height = 10,
      rp_groove_width = 5,
      rp_groove_depth = 2.5,
      rp_clip_height = 20,
      rp_assembly_clearance = 0.2,
      rp_retention_offset = 0.1\<rparr>"

section \<open>Concrete inputs\<close>

text \<open>The groove and clip parameters that \<open>verify_clip_height.py\<close> constructs.\<close>

definition verify_groove_params :: GrooveParameters where
  "verify_groove_params =
     GrooveParameters_default\<lparr>width := 5, depth := 5, height := 20, gtype := RECTANGULAR\<rparr>"

definition verify_clip_params :: ClipParameters where
  "verify_clip_params =
     \<lparr>groove_params = verify_groove_params, cheight = 10,
      assembly_clearance = 0, retention_offset = 0\<rparr>"


definition triangle_clip_params :: ClipParameters where
  "triangle_clip_params =
     \<lparr>groove_params = \<lparr>width = 4, depth = 1, height = 10, glength = 10,
                        gtype = TRIANGLE, fillet_radius = 0\<rparr>,
      cheight = 20, assembly_clearance = 0.2, retention_offset = 0.1\<rparr>"

text \<open>Source grooves with a positive and with a negative fillet radius.\<close>

definition fillet_clip_params :: ClipParameters where
  "fillet_clip_params =
     \<lparr>groove_params = \<lparr>width = 5, depth = 2, height = 10, glength = 10,
                        gtype = CIRCULAR, fillet_radius = 1\<rparr>,
      cheight = 20, assembly_clearance = 1, retention_offset = 1\<rparr>"

definition negative_fillet_clip_params :: ClipParameters where
  "negative_fillet_clip_params =
     \<lparr>groove_params = \<lparr>width = 5, depth = 2, height = 10, glength = 10,
                        gtype = CIRCULAR, fillet_radius = - 1\<rparr>,
      cheight = 20, assembly_clearance = 1, retention_offset = 1\<rparr>"

text \<open>Clip parameters that \<open>validate\<close> rejects, one for each of its first three checks.\<close>

definition flat_clip_params :: ClipParameters where
  "flat_clip_params = verify_clip_params\<lparr>cheight := 0\<rparr>"

definition wide_clip_params :: ClipParameters where
  "wide_clip_params = verify_clip_params\<lparr>assembly_clearance := 6\<rparr>"

definition deep_clip_params :: ClipParameters where
  "deep_clip_params = verify_clip_params\<lparr>retention_offset := 5\<rparr>"

text \<open>Runtime parameters with a clearance of 6 on a groove of width 5.\<close>

definition wide_params :: runtime_params where
  "wide_params = test_params\<lparr>rp_assembly_clearance := 6\<rparr>"

text \<open>
  Kernels on which the inward offset is not done, on which no offset is done, and
  on which the thickened solid has a negative volume.
\<close>

definition outward_kernel :: kernel where
  "outward_kernel =
     test_kernel\<lparr>is_done := (\<lambda>s. s \<noteq> ThickSolid (OneShape ''in.stp'') (- 2.65))\<rparr>"

definition no_offset_kernel :: kernel where
  "no_offset_kernel =
     test_kernel\<lparr>is_done := (\<lambda>s. case s of ThickSolid b t \<Rightarrow> False | _ \<Rightarrow> True)\<rparr>"

definition inverted_kernel :: kernel where
  "inverted_kernel =
     test_kernel\<lparr>mass := (\<lambda>s. case s of ThickSolid b t \<Rightarrow> - 1 | _ \<Rightarrow> 1)\<rparr>"

text \<open>A kernel on which the input is valid and no other shape is.\<close>

definition invalid_final_kernel :: kernel where
  "invalid_final_kernel =
     test_kernel\<lparr>is_valid := (\<lambda>s. case s of OneShape p \<Rightarrow> True | _ \<Rightarrow> False)\<rparr>"

text \<open>A thickened body and two placed grooves.\<close>

definition test_body :: shape where
  "test_body = ThickSolid (OneShape ''in.stp'') (- 2)"

definition groove_a :: shape where
  "groove_a = Placed (MakeBox (- 1, - 5, - 1) 2 10 1) (0, 0, 0) (0, 0, 1)"

definition groove_b :: shape where
  "groove_b = Placed (MakeBox (- 1, - 5, - 1) 2 10 1) (50, 0, 0) (0, 0, 1)"

text \<open>The runtime parameters with the default count of \<open>get_groove_count\<close>.\<close>

definition default_count_params :: runtime_params where
  "default_count_params = test_params\<lparr>rp_groove_count := 10\<rparr>"

section \<open>Arithmetic of Python floats\<close>

lemma numeral_pyfloat [simp]: "numeral k = Finite (numeral k)"
proof (induction k)
  case One
  show ?case by (simp add: one_pyfloat_def)
next
  case (Bit0 k)
  have "(numeral (num.Bit0 k) :: pyfloat) = numeral k + numeral k"
    by (rule numeral_Bit0)
  also have "\<dots> = Finite (numeral k) + Finite (numeral k)"
    by (simp only: Bit0.IH)
  also have "\<dots> = Finite (numeral (num.Bit0 k))"
    by (simp add: numeral_Bit0)
  finally show ?case .
next
  case (Bit1 k)
  have "(numeral (num.Bit1 k) :: pyfloat) = numeral k + numeral k + 1"
    by (rule numeral_Bit1)
  also have "\<dots> = Finite (numeral k) + Finite (numeral k) + Finite 1"
    by (simp only: Bit1.IH one_pyfloat_def)
  also have "\<dots> = Finite (numeral (num.Bit1 k))"
    by (simp add: numeral_Bit1)
  finally show ?case .
qed

lemma zero_pyfloat [simp]: "(0::pyfloat) = Finite 0"
  by (simp add: zero_pyfloat_def)

lemma one_pyfloat [simp]: "(1::pyfloat) = Finite 1"
  by (simp add: one_pyfloat_def)

lemma power_pyfloat [simp]: "Finite x ^ n = Finite (x ^ n)"
  by (induction n) (simp_all add: one_pyfloat_def)

lemma minus_Finite [simp]: "Finite x - Finite y = Finite (x - y)"
  by (simp add: minus_pyfloat_def)

lemma less_Finite [simp]: "Finite x < Finite y \<longleftrightarrow> x < y"
  by (auto simp add: less_pyfloat_def)

lemma min_Finite [simp]: "min (Finite x) (Finite y) = Finite (min x y)"
  by (simp add: min_def)

lemma max_Finite [simp]: "max (Finite x) (Finite y) = Finite (max x y)"
  by (simp add: max_def)

lemma is_finite_Finite [simp]: "is_finite (Finite x)"
  by (simp add: is_finite_def)

lemma is_finite_iff: "is_finite a \<longleftrightarrow> (\<exists>x. a = Finite x)"
  by (cases a) (simp_all add: is_finite_def)

lemma is_finiteE: "is_finite a \<Longrightarrow> (\<And>x. a = Finite x \<Longrightarrow> P) \<Longrightarrow> P"
  by (cases a) (simp_all add: is_finite_def)

text \<open>On floats that are not NaN the comparisons are those of a linear order.\<close>

lemma less_not_le: "(a::pyfloat) < b \<Longrightarrow> \<not> b \<le> a"
  by (simp add: less_pyfloat_def)

lemma le_not_less: "(a::pyfloat) \<le> b \<Longrightarrow> \<not> b < a"
  by (simp add: less_pyfloat_def)

lemma not_le_less: "a \<noteq> NaN \<Longrightarrow> b \<noteq> NaN \<Longrightarrow> \<not> (a::pyfloat) \<le> b \<Longrightarrow> b < a"
  by (cases a; cases b) (simp_all add: less_pyfloat_def)

lemma less_diff_pos: "(a::pyfloat) < b \<Longrightarrow> Finite 0 < b - a"
  by (cases a; cases b) (simp_all add: less_pyfloat_def minus_pyfloat_def)

lemma diff_zero_py: "a - Finite 0 = (a::pyfloat)"
  by (cases a) (simp_all add: minus_pyfloat_def)

section \<open>The profiles\<close>

lemma sqrt3_gt_1: "1 < sqrt 3"
  by (rule real_less_rsqrt) simp

lemma sqrt3_clip_facts: "10 < 19 * sqrt 3" "19 * sqrt 3 / 10 - 1 \<noteq> - (1 / 10)"
proof -
  have g: "1 < sqrt 3" by (rule sqrt3_gt_1)
  then show "10 < 19 * sqrt 3" by linarith
  from g have "- (1 / 10) < 19 * sqrt 3 / 10 - 1" by linarith
  then show "19 * sqrt 3 / 10 - 1 \<noteq> - (1 / 10)" by linarith
qed

lemma rectangular_y_extent:
  "gtype p = RECTANGULAR \<Longrightarrow> is_finite (glength p) \<Longrightarrow>
   y_extent (create_shape p) = glength p"
  by (erule is_finiteE) (simp add: create_shape_def y_extent_def py_def Let_def)

text \<open>
  C5. The claim is that a rectangular profile built with height \<open>h\<close> measures
  \<open>h\<close> along local Y whatever the other parameters are. The box is built from the
  field \<open>length\<close>: the groove parameters of \<open>verify_clip_height.py\<close>, with height 20
  and the default length 10, give a box of extent 10.
\<close>

theorem rectangular_extent_is_length_not_height:
  "gtype verify_groove_params = RECTANGULAR \<and>
   height verify_groove_params = 20 \<and>
   y_extent (create_shape verify_groove_params) = 10"
  by (simp add: verify_groove_params_def GrooveParameters_default_def create_shape_def
      y_extent_def py_def Let_def)




section \<open>The clip parameters\<close>

text \<open>A NaN in the height, the clearance and the offset passes every check of \<open>validate\<close>.\<close>

lemma validate_accepts_nan:
  "cheight c = NaN \<Longrightarrow> assembly_clearance c = NaN \<Longrightarrow> retention_offset c = NaN \<Longrightarrow>
   validate c = (True, [Txt ''Valid''])"
  by (cases "width (groove_params c)"; cases "depth (groove_params c)")
     (simp_all add: validate_def Let_def minus_pyfloat_def)

text \<open>
  C4, as stated: success of \<open>validate\<close> gives a positive clearance and a positive
  retention offset. The clip parameters of \<open>verify_clip_height.py\<close>, with both at
  zero, are accepted.
\<close>

theorem validate_accepts_zero_clearance:
  "fst (validate verify_clip_params) \<and>
   \<not> (0 < assembly_clearance verify_clip_params \<and>
       assembly_clearance verify_clip_params < width (groove_params verify_clip_params) \<and>
       0 < retention_offset verify_clip_params \<and>
       retention_offset verify_clip_params < depth (groove_params verify_clip_params))"
  by (simp add: validate_def verify_clip_params_def verify_groove_params_def
      GrooveParameters_default_def)

text \<open>
  C4, amended: when none of the clip height, the clearance, the retention offset, the
  source width and the source depth is NaN, success of \<open>validate\<close> gives a positive
  clip height, a clearance below the source width and a retention offset below the
  source depth, so that the derived width and depth are positive. A clearance and
  an offset of zero are accepted: with a positive clip height, source width and
  source depth, \<open>validate\<close> succeeds on them.
\<close>

theorem validate_success_bounds:
  "(fst (validate c) \<and> cheight c \<noteq> NaN \<and> assembly_clearance c \<noteq> NaN \<and>
    retention_offset c \<noteq> NaN \<and> width (groove_params c) \<noteq> NaN \<and>
    depth (groove_params c) \<noteq> NaN \<longrightarrow>
      0 < cheight c \<and>
      assembly_clearance c < width (groove_params c) \<and>
      retention_offset c < depth (groove_params c) \<and>
      0 < width (groove_params c) - assembly_clearance c \<and>
      0 < depth (groove_params c) - retention_offset c) \<and>
   (0 < cheight c \<and> 0 < width (groove_params c) \<and> 0 < depth (groove_params c) \<and>
    assembly_clearance c = 0 \<and> retention_offset c = 0 \<longrightarrow> fst (validate c))"
proof (intro conjI impI)
  assume a: "fst (validate c) \<and> cheight c \<noteq> NaN \<and> assembly_clearance c \<noteq> NaN \<and>
    retention_offset c \<noteq> NaN \<and> width (groove_params c) \<noteq> NaN \<and>
    depth (groove_params c) \<noteq> NaN"
  then have v: "\<not> cheight c \<le> Finite 0"
    "\<not> width (groove_params c) \<le> assembly_clearance c"
    "\<not> depth (groove_params c) \<le> retention_offset c"
    by (simp_all add: validate_def Let_def split: if_splits)
  from a v(1) show h: "0 < cheight c"
    by (simp add: not_le_less)
  from a v(2) show w: "assembly_clearance c < width (groove_params c)"
    by (simp add: not_le_less)
  from a v(3) show d: "retention_offset c < depth (groove_params c)"
    by (simp add: not_le_less)
  from less_diff_pos [OF w] show "0 < width (groove_params c) - assembly_clearance c"
    by simp
  from less_diff_pos [OF d] show "0 < depth (groove_params c) - retention_offset c"
    by simp
next
  assume b: "0 < cheight c \<and> 0 < width (groove_params c) \<and> 0 < depth (groove_params c) \<and>
    assembly_clearance c = 0 \<and> retention_offset c = 0"
  then have "\<not> cheight c \<le> Finite 0" "\<not> width (groove_params c) \<le> Finite 0"
    "\<not> depth (groove_params c) \<le> Finite 0"
    using less_not_le [of "Finite 0" "cheight c"]
      less_not_le [of "Finite 0" "width (groove_params c)"]
      less_not_le [of "Finite 0" "depth (groove_params c)"]
    by simp_all
  with b show "fst (validate c)"
    by (simp add: validate_def Let_def diff_zero_py)
qed

theorem validate_success_bounds_witness:
  "fst (validate verify_clip_params) \<and>
   cheight verify_clip_params \<noteq> NaN \<and> assembly_clearance verify_clip_params \<noteq> NaN \<and>
   retention_offset verify_clip_params \<noteq> NaN \<and>
   width (groove_params verify_clip_params) \<noteq> NaN \<and>
   depth (groove_params verify_clip_params) \<noteq> NaN \<and>
   assembly_clearance verify_clip_params = 0 \<and> retention_offset verify_clip_params = 0 \<and>
   0 < cheight verify_clip_params \<and>
   0 < width (groove_params verify_clip_params) \<and>
   0 < depth (groove_params verify_clip_params) \<and>
   assembly_clearance verify_clip_params < width (groove_params verify_clip_params) \<and>
   retention_offset verify_clip_params < depth (groove_params verify_clip_params)"
proof -
  have n: "cheight verify_clip_params \<noteq> NaN \<and> assembly_clearance verify_clip_params \<noteq> NaN \<and>
      retention_offset verify_clip_params \<noteq> NaN \<and>
      width (groove_params verify_clip_params) \<noteq> NaN \<and>
      depth (groove_params verify_clip_params) \<noteq> NaN"
    by (simp add: verify_clip_params_def verify_groove_params_def GrooveParameters_default_def)
  have z: "0 < cheight verify_clip_params \<and>
      0 < width (groove_params verify_clip_params) \<and>
      0 < depth (groove_params verify_clip_params) \<and>
      assembly_clearance verify_clip_params = 0 \<and> retention_offset verify_clip_params = 0"
    by (simp add: verify_clip_params_def verify_groove_params_def GrooveParameters_default_def)
  from validate_success_bounds [of verify_clip_params] z
  have v: "fst (validate verify_clip_params)"
    by blast
  from validate_success_bounds [of verify_clip_params] v n
  have "assembly_clearance verify_clip_params < width (groove_params verify_clip_params) \<and>
      retention_offset verify_clip_params < depth (groove_params verify_clip_params)"
    by blast
  with v n z show ?thesis by simp
qed

text \<open>
  C9, as stated: the derived fillet radius is the source fillet radius times the
  ratio of derived to source width. For a source fillet radius of -1 on a width of
  5 with clearance 1 the derived fillet radius is 0, where the product is -4/5.
\<close>

theorem negative_fillet_counterexample:
  "map_sum id fst (derive_from_groove (ClipGenerator_init negative_fillet_clip_params)) =
     Inr \<lparr>width = 4, depth = 1, height = 20, glength = 20, gtype = CIRCULAR,
          fillet_radius = 0\<rparr> \<and>
   fillet_radius (groove_params negative_fillet_clip_params) *
     ((width (groove_params negative_fillet_clip_params) -
       assembly_clearance negative_fillet_clip_params) /
      width (groove_params negative_fillet_clip_params)) = - (4 / 5) \<and>
   (0 :: pyfloat) \<noteq> - (4 / 5)"
  by (simp add: derive_from_groove_def ClipGenerator_init_def negative_fillet_clip_params_def
      Let_def)

text \<open>
  C9, amended: except on a zero source width with a positive source fillet radius,
  the first call of \<open>derive_from_groove\<close> on a new generator and every later call
  on the generator it leaves return the same parameters: the width \<open>width - assembly_clearance\<close>, the
  depth \<open>depth - retention_offset\<close>, the kind of the source, and as fillet radius
  the source fillet radius times the ratio of derived to source width when the
  source fillet radius is positive, and 0 otherwise. For a clearance strictly
  between 0 and the width and an offset strictly between 0 and the depth the
  derived width and depth are positive.
\<close>

theorem derive_from_groove_spec:
  assumes "0 < fillet_radius (groove_params c) \<longrightarrow> width (groove_params c) \<noteq> 0"
  shows "\<exists>d g'. derive_from_groove (ClipGenerator_init c) = Inr (d, g') \<and>
     derive_from_groove g' = Inr (d, g') \<and>
     width d = width (groove_params c) - assembly_clearance c \<and>
     depth d = depth (groove_params c) - retention_offset c \<and>
     gtype d = gtype (groove_params c) \<and>
     fillet_radius d =
       (if 0 < fillet_radius (groove_params c)
        then fillet_radius (groove_params c) * (width d / width (groove_params c))
        else 0) \<and>
     (0 < assembly_clearance c \<and> assembly_clearance c < width (groove_params c) \<and>
      0 < retention_offset c \<and> retention_offset c < depth (groove_params c)
      \<longrightarrow> 0 < width d \<and> 0 < depth d)"
proof -
  have p: "assembly_clearance c < width (groove_params c) \<Longrightarrow>
      Finite 0 < width (groove_params c) - assembly_clearance c"
    "retention_offset c < depth (groove_params c) \<Longrightarrow>
      Finite 0 < depth (groove_params c) - retention_offset c"
    by (rule less_diff_pos, assumption)+
  show ?thesis
    using assms p
    by (simp add: derive_from_groove_def ClipGenerator_init_def Let_def)
qed

theorem derive_from_groove_spec_witness:
  "0 < fillet_radius (groove_params fillet_clip_params) \<and>
   width (groove_params fillet_clip_params) \<noteq> 0 \<and>
   0 < assembly_clearance fillet_clip_params \<and>
   assembly_clearance fillet_clip_params < width (groove_params fillet_clip_params) \<and>
   0 < retention_offset fillet_clip_params \<and>
   retention_offset fillet_clip_params < depth (groove_params fillet_clip_params) \<and>
   (\<exists>d g'. derive_from_groove (ClipGenerator_init fillet_clip_params) = Inr (d, g') \<and>
      derive_from_groove g' = Inr (d, g') \<and>
      width d = 4 \<and> depth d = 1 \<and> gtype d = CIRCULAR \<and> fillet_radius d = 4 / 5)"
proof -
  have w: "0 < fillet_radius (groove_params fillet_clip_params) \<longrightarrow>
      width (groove_params fillet_clip_params) \<noteq> 0"
    and w': "width (groove_params fillet_clip_params) \<noteq> 0"
    by (simp_all add: fillet_clip_params_def)
  have h: "0 < fillet_radius (groove_params fillet_clip_params) \<and>
      0 < assembly_clearance fillet_clip_params \<and>
      assembly_clearance fillet_clip_params < width (groove_params fillet_clip_params) \<and>
      0 < retention_offset fillet_clip_params \<and>
      retention_offset fillet_clip_params < depth (groove_params fillet_clip_params)"
    by (simp add: fillet_clip_params_def)
  from derive_from_groove_spec [OF w]
  obtain d g' where r:
    "derive_from_groove (ClipGenerator_init fillet_clip_params) = Inr (d, g')"
    "derive_from_groove g' = Inr (d, g')"
    "width d = width (groove_params fillet_clip_params) - assembly_clearance fillet_clip_params"
    "depth d = depth (groove_params fillet_clip_params) - retention_offset fillet_clip_params"
    "gtype d = gtype (groove_params fillet_clip_params)"
    "fillet_radius d =
       (if 0 < fillet_radius (groove_params fillet_clip_params)
        then fillet_radius (groove_params fillet_clip_params) *
               (width d / width (groove_params fillet_clip_params))
        else 0)"
    by blast
  have "width d = 4 \<and> depth d = 1 \<and> gtype d = CIRCULAR \<and> fillet_radius d = 4 / 5"
    using r(3-6) by (simp add: fillet_clip_params_def)
  with r(1,2) w' h show ?thesis by blast
qed

section \<open>The clip shape\<close>

text \<open>
  For the rectangular, square and circular kinds, a validated clip on finite
  parameters and a positive source width is returned, on the first call and on
  every later one, with its far face at Z = \<open>- depth\<close> and its near face at
  Z = \<open>- retention_offset\<close>.
\<close>

lemma clip_recess_other_kinds:
  assumes "fst (validate c)" and "gtype (groove_params c) \<noteq> TRIANGLE"
    and "0 < width (groove_params c)"
    and "is_finite (width (groove_params c))" and "is_finite (depth (groove_params c))"
    and "is_finite (assembly_clearance c)" and "is_finite (retention_offset c)"
    and "is_finite (cheight c)"
  shows "\<exists>s g'. clip_create_shape (ClipGenerator_init c) = Inr (s, g') \<and>
           clip_create_shape g' = Inr (s, g') \<and>
           z_far s = - depth (groove_params c) \<and>
           z_near s = - retention_offset c"
proof -
  from assms(4-8) obtain w d a r h where f:
    "width (groove_params c) = Finite w" "depth (groove_params c) = Finite d"
    "assembly_clearance c = Finite a" "retention_offset c = Finite r"
    "cheight c = Finite h"
    by (auto simp add: is_finite_iff)
  from assms(3) f have "w \<noteq> 0" by simp
  with assms(2) f show ?thesis
    by (cases "gtype (groove_params c)")
       (simp_all add: clip_create_shape_def derive_from_groove_def ClipGenerator_init_def
          create_shape_def Let_def z_far_def z_near_def pz_def translate_def)
qed

text \<open>
  C1. The claim is that the clip of every validated source occupies Z from
  \<open>- depth\<close> to \<open>- retention_offset\<close>, recessed from the surface at Z = 0. On a
  triangular groove of width 4 and depth 1, with the default clearance 0.2 and offset
  0.1, the clip is validated, its far face is at Z = -1, and its near extent is
  \<open>- 1 + 3.8 * sqrt 3 / 2\<close>, above the surface, on the first call and on the next.
\<close>

theorem triangular_clip_above_surface:
  "fst (validate triangle_clip_params) \<and>
   map_sum id fst (clip_create_shape (ClipGenerator_init triangle_clip_params)) =
     Inr (Translated
            (Translated
               (MakePrism (- 1.9, 0, - 0.9) (1.9, 0, - 0.9) (0, 0, - 0.9 + 3.8 * math_sqrt 3 / 2)
                  (0, 20, 0))
               (0, - 10, 0))
            (0, 0, - 0.1)) \<and>
   map_sum id fst
     (clip_create_shape
        (snd (projr (clip_create_shape (ClipGenerator_init triangle_clip_params))))) =
     map_sum id fst (clip_create_shape (ClipGenerator_init triangle_clip_params)) \<and>
   z_far (Translated
            (Translated
               (MakePrism (- 1.9, 0, - 0.9) (1.9, 0, - 0.9) (0, 0, - 0.9 + 3.8 * math_sqrt 3 / 2)
                  (0, 20, 0))
               (0, - 10, 0))
            (0, 0, - 0.1)) = - depth (groove_params triangle_clip_params) \<and>
   z_near (Translated
            (Translated
               (MakePrism (- 1.9, 0, - 0.9) (1.9, 0, - 0.9) (0, 0, - 0.9 + 3.8 * math_sqrt 3 / 2)
                  (0, 20, 0))
               (0, - 10, 0))
            (0, 0, - 0.1)) = Finite (- 1 + 3.8 * sqrt 3 / 2) \<and>
   0 < Finite (- 1 + 3.8 * sqrt 3 / 2) \<and>
   Finite (- 1 + 3.8 * sqrt 3 / 2) \<noteq> - retention_offset triangle_clip_params"
  using sqrt3_clip_facts
  by (simp add: validate_def triangle_clip_params_def clip_create_shape_def
      derive_from_groove_def ClipGenerator_init_def create_shape_def Let_def z_near_def
      z_far_def pz_def translate_def max3_def min3_def)

section \<open>Records of events\<close>

lemma attempts_append: "attempts (a @ b) = attempts a @ attempts b"
  by (induction a rule: attempts.induct) simp_all

lemma queries_append: "queries (a @ b) = queries a @ queries b"
  by (induction a rule: queries.induct) simp_all

lemma constructed_append: "constructed (a @ b) = constructed a @ constructed b"
  by (induction a rule: constructed.induct) simp_all

lemma exported_append: "exported (a @ b) = exported a @ exported b"
  by (induction a rule: exported.induct) simp_all

lemma phases_append: "phases (a @ b) = phases a @ phases b"
  by (induction a rule: phases.induct) simp_all

lemmas readings_append =
  attempts_append queries_append constructed_append exported_append phases_append

lemma check_validity_events:
  "attempts (snd (check_validity k s n)) = []"
  "queries (snd (check_validity k s n)) = []"
  "constructed (snd (check_validity k s n)) = []"
  "exported (snd (check_validity k s n)) = []"
  "phases (snd (check_validity k s n)) = [''Validation'']"
  by (simp_all add: check_validity_def)

lemma check_validity_value: "fst (check_validity k s n) = is_valid k s"
  by (simp add: check_validity_def)

lemma phase3_events:
  "attempts (phase3 k a b) = []"
  "queries (phase3 k a b) = []"
  "constructed (phase3 k a b) = []"
  "exported (phase3 k a b) = []"
  "''Phase 3'' \<in> set (phases (phase3 k a b))"
  by (simp_all add: phase3_def Let_def)

lemma phase2_events:
  "queries (snd (phase2 k s t)) = []"
  "constructed (snd (phase2 k s t)) = []"
  "exported (snd (phase2 k s t)) = []"
  "set (phases (snd (phase2 k s t))) \<subseteq> {''Phase 2''}"
  by (simp_all add: phase2_def thicken_def Let_def split: option.splits)

lemma phase2_first_done:
  "is_done k (ThickSolid s (- \<bar>t\<bar>)) \<Longrightarrow>
   fst (phase2 k s t) =
     Some (if mass k (ThickSolid s (- \<bar>t\<bar>)) < 0
           then Reversed (ThickSolid s (- \<bar>t\<bar>)) else ThickSolid s (- \<bar>t\<bar>)) \<and>
   attempts (snd (phase2 k s t)) = [ThickSolid s (- \<bar>t\<bar>)]"
  by (simp add: phase2_def thicken_def Let_def)

lemma phase2_second_done:
  "\<not> is_done k (ThickSolid s (- \<bar>t\<bar>)) \<Longrightarrow> is_done k (ThickSolid s \<bar>t\<bar>) \<Longrightarrow>
   fst (phase2 k s t) =
     Some (if mass k (ThickSolid s \<bar>t\<bar>) < 0
           then Reversed (ThickSolid s \<bar>t\<bar>) else ThickSolid s \<bar>t\<bar>) \<and>
   attempts (snd (phase2 k s t)) = [ThickSolid s (- \<bar>t\<bar>), ThickSolid s \<bar>t\<bar>]"
  by (simp add: phase2_def thicken_def Let_def)

lemma phase2_both_fail:
  "\<not> is_done k (ThickSolid s (- \<bar>t\<bar>)) \<Longrightarrow> \<not> is_done k (ThickSolid s \<bar>t\<bar>) \<Longrightarrow>
   fst (phase2 k s t) = None \<and>
   attempts (snd (phase2 k s t)) = [ThickSolid s (- \<bar>t\<bar>), ThickSolid s \<bar>t\<bar>]"
  by (simp add: phase2_def thicken_def Let_def)

text \<open>What a run is, once the input is read and valid.\<close>

lemma run_pipeline_thickening_failed:
  assumes "read_file k i = 1" and "is_valid k (OneShape i)"
    and "fst (phase2 k (OneShape i) (rp_thickness rp)) = None"
  shows "fst (run_pipeline k i out rp) = Inr (False, [Txt ''Thickening failed.''])"
    and "attempts (snd (run_pipeline k i out rp)) =
           attempts (snd (phase2 k (OneShape i) (rp_thickness rp)))"
    and "queries (snd (run_pipeline k i out rp)) = []"
    and "constructed (snd (run_pipeline k i out rp)) = []"
    and "exported (snd (run_pipeline k i out rp)) = []"
    and "set (phases (snd (run_pipeline k i out rp))) \<subseteq> {''Phase 1'', ''Validation'', ''Phase 2''}"
proof -
  obtain e2 where p: "phase2 k (OneShape i) (rp_thickness rp) = (None, e2)"
    using assms(3) by (cases "phase2 k (OneShape i) (rp_thickness rp)") simp
  have q: "queries e2 = []" "constructed e2 = []" "exported e2 = []"
    "set (phases e2) \<subseteq> {''Phase 2''}"
    using phase2_events [of k "OneShape i" "rp_thickness rp"] p by simp_all
  have r: "run_pipeline k i out rp =
      (Inr (False, [Txt ''Thickening failed.'']),
       [Log ''Phase 1'' [Txt ''Loading '', Txt i, Txt ''...''], ReadFile i] @
       snd (check_validity k (OneShape i) ''Input'') @
       (if has_faces k (OneShape i) then []
        else [Log ''Phase 1'' [Txt ''Warning: Input does not seem to contain faces.'']]) @
       [Log ''Phase 2'' [Txt ''Applying thickness '', Num (rp_thickness rp), Txt ''mm INWARD...'']] @
       e2)"
    using assms(1,2) p by (simp add: run_pipeline_def Let_def check_validity_def)
  show "fst (run_pipeline k i out rp) = Inr (False, [Txt ''Thickening failed.''])"
    by (simp add: r)
  show "attempts (snd (run_pipeline k i out rp)) =
           attempts (snd (phase2 k (OneShape i) (rp_thickness rp)))"
    by (simp add: r p readings_append check_validity_events)
  show "queries (snd (run_pipeline k i out rp)) = []"
    by (simp add: r q readings_append check_validity_events)
  show "constructed (snd (run_pipeline k i out rp)) = []"
    by (simp add: r q readings_append check_validity_events)
  show "exported (snd (run_pipeline k i out rp)) = []"
    by (simp add: r q readings_append check_validity_events)
  show "set (phases (snd (run_pipeline k i out rp))) \<subseteq> {''Phase 1'', ''Validation'', ''Phase 2''}"
    using q(4) by (auto simp add: r readings_append check_validity_events)
qed

lemma run_pipeline_thickened:
  assumes "read_file k i = 1" and "is_valid k (OneShape i)"
    and "fst (phase2 k (OneShape i) (rp_thickness rp)) = Some b"
  shows "fst (run_pipeline k i out rp) = fst (phase4_to_6 k b out rp)"
    and "attempts (snd (run_pipeline k i out rp)) =
           attempts (snd (phase2 k (OneShape i) (rp_thickness rp))) @
           attempts (snd (phase4_to_6 k b out rp))"
    and "queries (snd (run_pipeline k i out rp)) = queries (snd (phase4_to_6 k b out rp))"
    and "constructed (snd (run_pipeline k i out rp)) = constructed (snd (phase4_to_6 k b out rp))"
    and "exported (snd (run_pipeline k i out rp)) = exported (snd (phase4_to_6 k b out rp))"
    and "''Phase 3'' \<in> set (phases (snd (run_pipeline k i out rp)))"
proof -
  obtain e2 where p: "phase2 k (OneShape i) (rp_thickness rp) = (Some b, e2)"
    using assms(3) by (cases "phase2 k (OneShape i) (rp_thickness rp)") simp
  have q: "queries e2 = []" "constructed e2 = []" "exported e2 = []"
    using phase2_events [of k "OneShape i" "rp_thickness rp"] p by simp_all
  have r: "run_pipeline k i out rp =
      (fst (phase4_to_6 k b out rp),
       [Log ''Phase 1'' [Txt ''Loading '', Txt i, Txt ''...''], ReadFile i] @
       snd (check_validity k (OneShape i) ''Input'') @
       (if has_faces k (OneShape i) then []
        else [Log ''Phase 1'' [Txt ''Warning: Input does not seem to contain faces.'']]) @
       [Log ''Phase 2'' [Txt ''Applying thickness '', Num (rp_thickness rp), Txt ''mm INWARD...'']] @
       e2 @ phase3 k (OneShape i) b @ snd (phase4_to_6 k b out rp))"
    using assms(1,2) p
    by (simp add: run_pipeline_def Let_def check_validity_def split: prod.splits)
  show "fst (run_pipeline k i out rp) = fst (phase4_to_6 k b out rp)"
    by (simp add: r)
  show "attempts (snd (run_pipeline k i out rp)) =
           attempts (snd (phase2 k (OneShape i) (rp_thickness rp))) @
           attempts (snd (phase4_to_6 k b out rp))"
    by (simp add: r p readings_append check_validity_events phase3_events)
  show "queries (snd (run_pipeline k i out rp)) = queries (snd (phase4_to_6 k b out rp))"
    by (simp add: r q readings_append check_validity_events phase3_events)
  show "constructed (snd (run_pipeline k i out rp)) = constructed (snd (phase4_to_6 k b out rp))"
    by (simp add: r q readings_append check_validity_events phase3_events)
  show "exported (snd (run_pipeline k i out rp)) = exported (snd (phase4_to_6 k b out rp))"
    by (simp add: r q readings_append check_validity_events phase3_events)
  show "''Phase 3'' \<in> set (phases (snd (run_pipeline k i out rp)))"
    using phase3_events(5) [of k "OneShape i" b]
    by (simp add: r readings_append)
qed

lemma run_pipeline_not_imported:
  assumes "read_file k i \<noteq> 1 \<or> \<not> is_valid k (OneShape i)"
  shows "\<exists>m. fst (run_pipeline k i out rp) = Inr (False, m)"
    and "attempts (snd (run_pipeline k i out rp)) = []"
    and "queries (snd (run_pipeline k i out rp)) = []"
    and "constructed (snd (run_pipeline k i out rp)) = []"
    and "exported (snd (run_pipeline k i out rp)) = []"
  using assms by (auto simp add: run_pipeline_def Let_def check_validity_def)

lemma phase4_to_6_invalid:
  assumes "\<not> fst (validate (pipeline_clip_params rp))"
  shows "phase4_to_6 k b out rp =
     (Inr (False, Txt ''Invalid clip parameters: '' # snd (validate (pipeline_clip_params rp))),
      [Log ''Phase 4'' [Txt ''Generating Parametric Grooves...''],
       Log ''Phase 4'' (Txt ''Critical Error: Invalid clip parameters - '' #
                          snd (validate (pipeline_clip_params rp)))])"
  using assms
  by (cases "validate (pipeline_clip_params rp)") (simp add: phase4_to_6_def Let_def)

lemma run_pipeline_invalid_clip:
  assumes "\<not> fst (validate (pipeline_clip_params rp))"
  shows "(\<exists>m. fst (run_pipeline k i out rp) = Inr (False, m)) \<and>
         queries (snd (run_pipeline k i out rp)) = [] \<and>
         constructed (snd (run_pipeline k i out rp)) = [] \<and>
         exported (snd (run_pipeline k i out rp)) = []"
proof (cases "read_file k i \<noteq> 1 \<or> \<not> is_valid k (OneShape i)")
  case True
  from run_pipeline_not_imported [OF True] show ?thesis by simp
next
  case False
  then have r: "read_file k i = 1" and v: "is_valid k (OneShape i)" by simp_all
  show ?thesis
  proof (cases "fst (phase2 k (OneShape i) (rp_thickness rp))")
    case None
    from run_pipeline_thickening_failed [OF r v None] show ?thesis by simp
  next
    case (Some b)
    from run_pipeline_thickened [OF r v Some] phase4_to_6_invalid [OF assms]
    show ?thesis by simp
  qed
qed

section \<open>Thickening\<close>

text \<open>
  C7. On an input that is read and valid, the first offset attempted is \<open>- |t|\<close>.
  When it is done no other offset is attempted. When it is not done the second
  attempt is \<open>+ |t|\<close>. When neither is done the run returns the failure
  \<open>Thickening failed.\<close>, these two are its only kernel operations, it queries no
  target, constructs no profile, writes no file and logs nothing after phase 2. When
  an offset is done and the volume of the solid is negative the solid is reversed,
  and in either case the run goes on to phase 3 and returns what phases 4 to 6
  return on that solid.
\<close>

theorem thickening_fallback:
  assumes "read_file k i = 1" and "is_valid k (OneShape i)"
  shows
    "(is_done k (ThickSolid (OneShape i) (- \<bar>rp_thickness rp\<bar>)) \<longrightarrow>
        (let b = ThickSolid (OneShape i) (- \<bar>rp_thickness rp\<bar>);
             b' = (if mass k b < 0 then Reversed b else b)
         in fst (run_pipeline k i out rp) = fst (phase4_to_6 k b' out rp) \<and>
            attempts (snd (run_pipeline k i out rp)) =
              b # attempts (snd (phase4_to_6 k b' out rp)) \<and>
            ''Phase 3'' \<in> set (phases (snd (run_pipeline k i out rp))))) \<and>
     (\<not> is_done k (ThickSolid (OneShape i) (- \<bar>rp_thickness rp\<bar>)) \<and>
      is_done k (ThickSolid (OneShape i) \<bar>rp_thickness rp\<bar>) \<longrightarrow>
        (let b = ThickSolid (OneShape i) \<bar>rp_thickness rp\<bar>;
             b' = (if mass k b < 0 then Reversed b else b)
         in fst (run_pipeline k i out rp) = fst (phase4_to_6 k b' out rp) \<and>
            attempts (snd (run_pipeline k i out rp)) =
              ThickSolid (OneShape i) (- \<bar>rp_thickness rp\<bar>) # b #
              attempts (snd (phase4_to_6 k b' out rp)) \<and>
            ''Phase 3'' \<in> set (phases (snd (run_pipeline k i out rp))))) \<and>
     (\<not> is_done k (ThickSolid (OneShape i) (- \<bar>rp_thickness rp\<bar>)) \<and>
      \<not> is_done k (ThickSolid (OneShape i) \<bar>rp_thickness rp\<bar>) \<longrightarrow>
        fst (run_pipeline k i out rp) = Inr (False, [Txt ''Thickening failed.'']) \<and>
        attempts (snd (run_pipeline k i out rp)) =
          [ThickSolid (OneShape i) (- \<bar>rp_thickness rp\<bar>),
           ThickSolid (OneShape i) \<bar>rp_thickness rp\<bar>] \<and>
        queries (snd (run_pipeline k i out rp)) = [] \<and>
        constructed (snd (run_pipeline k i out rp)) = [] \<and>
        exported (snd (run_pipeline k i out rp)) = [] \<and>
        set (phases (snd (run_pipeline k i out rp))) \<subseteq>
          {''Phase 1'', ''Validation'', ''Phase 2''})"
proof (intro conjI impI)
  assume d: "is_done k (ThickSolid (OneShape i) (- \<bar>rp_thickness rp\<bar>))"
  from phase2_first_done [OF d]
  have p: "fst (phase2 k (OneShape i) (rp_thickness rp)) =
      Some (if mass k (ThickSolid (OneShape i) (- \<bar>rp_thickness rp\<bar>)) < 0
            then Reversed (ThickSolid (OneShape i) (- \<bar>rp_thickness rp\<bar>))
            else ThickSolid (OneShape i) (- \<bar>rp_thickness rp\<bar>))"
    and a: "attempts (snd (phase2 k (OneShape i) (rp_thickness rp))) =
      [ThickSolid (OneShape i) (- \<bar>rp_thickness rp\<bar>)]"
    by simp_all
  from run_pipeline_thickened [OF assms p] a
  show "let b = ThickSolid (OneShape i) (- \<bar>rp_thickness rp\<bar>);
            b' = (if mass k b < 0 then Reversed b else b)
        in fst (run_pipeline k i out rp) = fst (phase4_to_6 k b' out rp) \<and>
           attempts (snd (run_pipeline k i out rp)) =
             b # attempts (snd (phase4_to_6 k b' out rp)) \<and>
           ''Phase 3'' \<in> set (phases (snd (run_pipeline k i out rp)))"
    by (simp add: Let_def)
next
  assume "\<not> is_done k (ThickSolid (OneShape i) (- \<bar>rp_thickness rp\<bar>)) \<and>
          is_done k (ThickSolid (OneShape i) \<bar>rp_thickness rp\<bar>)"
  then have n: "\<not> is_done k (ThickSolid (OneShape i) (- \<bar>rp_thickness rp\<bar>))"
    and d: "is_done k (ThickSolid (OneShape i) \<bar>rp_thickness rp\<bar>)"
    by simp_all
  from phase2_second_done [OF n d]
  have p: "fst (phase2 k (OneShape i) (rp_thickness rp)) =
      Some (if mass k (ThickSolid (OneShape i) \<bar>rp_thickness rp\<bar>) < 0
            then Reversed (ThickSolid (OneShape i) \<bar>rp_thickness rp\<bar>)
            else ThickSolid (OneShape i) \<bar>rp_thickness rp\<bar>)"
    and a: "attempts (snd (phase2 k (OneShape i) (rp_thickness rp))) =
      [ThickSolid (OneShape i) (- \<bar>rp_thickness rp\<bar>), ThickSolid (OneShape i) \<bar>rp_thickness rp\<bar>]"
    by simp_all
  from run_pipeline_thickened [OF assms p] a
  show "let b = ThickSolid (OneShape i) \<bar>rp_thickness rp\<bar>;
            b' = (if mass k b < 0 then Reversed b else b)
        in fst (run_pipeline k i out rp) = fst (phase4_to_6 k b' out rp) \<and>
           attempts (snd (run_pipeline k i out rp)) =
             ThickSolid (OneShape i) (- \<bar>rp_thickness rp\<bar>) # b #
             attempts (snd (phase4_to_6 k b' out rp)) \<and>
           ''Phase 3'' \<in> set (phases (snd (run_pipeline k i out rp)))"
    by (simp add: Let_def)
next
  assume h: "\<not> is_done k (ThickSolid (OneShape i) (- \<bar>rp_thickness rp\<bar>)) \<and>
             \<not> is_done k (ThickSolid (OneShape i) \<bar>rp_thickness rp\<bar>)"
  then have n1: "\<not> is_done k (ThickSolid (OneShape i) (- \<bar>rp_thickness rp\<bar>))"
    and n2: "\<not> is_done k (ThickSolid (OneShape i) \<bar>rp_thickness rp\<bar>)"
    by simp_all
  from phase2_both_fail [OF n1 n2]
  have p: "fst (phase2 k (OneShape i) (rp_thickness rp)) = None"
    and a: "attempts (snd (phase2 k (OneShape i) (rp_thickness rp))) =
      [ThickSolid (OneShape i) (- \<bar>rp_thickness rp\<bar>), ThickSolid (OneShape i) \<bar>rp_thickness rp\<bar>]"
    by simp_all
  note f = run_pipeline_thickening_failed [OF assms p]
  show "fst (run_pipeline k i out rp) = Inr (False, [Txt ''Thickening failed.''])"
    by (rule f(1))
  show "attempts (snd (run_pipeline k i out rp)) =
          [ThickSolid (OneShape i) (- \<bar>rp_thickness rp\<bar>),
           ThickSolid (OneShape i) \<bar>rp_thickness rp\<bar>]"
    using f(2) a by simp
  show "queries (snd (run_pipeline k i out rp)) = []" by (rule f(3))
  show "constructed (snd (run_pipeline k i out rp)) = []" by (rule f(4))
  show "exported (snd (run_pipeline k i out rp)) = []" by (rule f(5))
  show "set (phases (snd (run_pipeline k i out rp))) \<subseteq>
          {''Phase 1'', ''Validation'', ''Phase 2''}" by (rule f(6))
qed

theorem thickening_fallback_witness:
  "read_file no_offset_kernel ''in.stp'' = 1 \<and>
   is_valid no_offset_kernel (OneShape ''in.stp'') \<and>
   \<not> is_done no_offset_kernel (ThickSolid (OneShape ''in.stp'') (- \<bar>rp_thickness test_params\<bar>)) \<and>
   \<not> is_done no_offset_kernel (ThickSolid (OneShape ''in.stp'') \<bar>rp_thickness test_params\<bar>) \<and>
   fst (run_pipeline no_offset_kernel ''in.stp'' ''out.stp'' test_params) =
     Inr (False, [Txt ''Thickening failed.'']) \<and>
   attempts (snd (run_pipeline no_offset_kernel ''in.stp'' ''out.stp'' test_params)) =
     [ThickSolid (OneShape ''in.stp'') (- 2.65), ThickSolid (OneShape ''in.stp'') 2.65] \<and>
   exported (snd (run_pipeline no_offset_kernel ''in.stp'' ''out.stp'' test_params)) = [] \<and>
   read_file outward_kernel ''in.stp'' = 1 \<and>
   is_valid outward_kernel (OneShape ''in.stp'') \<and>
   \<not> is_done outward_kernel (ThickSolid (OneShape ''in.stp'') (- \<bar>rp_thickness test_params\<bar>)) \<and>
   is_done outward_kernel (ThickSolid (OneShape ''in.stp'') \<bar>rp_thickness test_params\<bar>) \<and>
   attempts (snd (run_pipeline outward_kernel ''in.stp'' ''out.stp'' test_params)) =
     ThickSolid (OneShape ''in.stp'') (- 2.65) # ThickSolid (OneShape ''in.stp'') 2.65 #
     attempts (snd (phase4_to_6 outward_kernel (ThickSolid (OneShape ''in.stp'') 2.65)
                      ''out.stp'' test_params)) \<and>
   read_file inverted_kernel ''in.stp'' = 1 \<and>
   is_valid inverted_kernel (OneShape ''in.stp'') \<and>
   is_done inverted_kernel (ThickSolid (OneShape ''in.stp'') (- \<bar>rp_thickness test_params\<bar>)) \<and>
   mass inverted_kernel (ThickSolid (OneShape ''in.stp'') (- \<bar>rp_thickness test_params\<bar>)) < 0 \<and>
   fst (run_pipeline inverted_kernel ''in.stp'' ''out.stp'' test_params) =
     fst (phase4_to_6 inverted_kernel (Reversed (ThickSolid (OneShape ''in.stp'') (- 2.65)))
            ''out.stp'' test_params) \<and>
   ''Phase 3'' \<in> set (phases (snd (run_pipeline inverted_kernel ''in.stp'' ''out.stp'' test_params)))"
proof -
  have n: "read_file no_offset_kernel ''in.stp'' = 1"
    "is_valid no_offset_kernel (OneShape ''in.stp'')"
    "\<not> is_done no_offset_kernel (ThickSolid (OneShape ''in.stp'') (- \<bar>rp_thickness test_params\<bar>))"
    "\<not> is_done no_offset_kernel (ThickSolid (OneShape ''in.stp'') \<bar>rp_thickness test_params\<bar>)"
    by (simp_all add: no_offset_kernel_def test_kernel_def)
  have o: "read_file outward_kernel ''in.stp'' = 1"
    "is_valid outward_kernel (OneShape ''in.stp'')"
    "\<not> is_done outward_kernel (ThickSolid (OneShape ''in.stp'') (- \<bar>rp_thickness test_params\<bar>))"
    "is_done outward_kernel (ThickSolid (OneShape ''in.stp'') \<bar>rp_thickness test_params\<bar>)"
    "\<not> mass outward_kernel (ThickSolid (OneShape ''in.stp'') \<bar>rp_thickness test_params\<bar>) < 0"
    by (simp_all add: outward_kernel_def test_kernel_def test_params_def)
  have v: "read_file inverted_kernel ''in.stp'' = 1"
    "is_valid inverted_kernel (OneShape ''in.stp'')"
    "is_done inverted_kernel (ThickSolid (OneShape ''in.stp'') (- \<bar>rp_thickness test_params\<bar>))"
    "mass inverted_kernel (ThickSolid (OneShape ''in.stp'') (- \<bar>rp_thickness test_params\<bar>)) < 0"
    by (simp_all add: inverted_kernel_def test_kernel_def)
  have t: "\<bar>rp_thickness test_params\<bar> = 2.65"
    by (simp add: test_params_def)
  from thickening_fallback [OF n(1,2), of test_params "''out.stp''"] n(3,4)
  have 1: "fst (run_pipeline no_offset_kernel ''in.stp'' ''out.stp'' test_params) =
      Inr (False, [Txt ''Thickening failed.'']) \<and>
    attempts (snd (run_pipeline no_offset_kernel ''in.stp'' ''out.stp'' test_params)) =
      [ThickSolid (OneShape ''in.stp'') (- \<bar>rp_thickness test_params\<bar>),
       ThickSolid (OneShape ''in.stp'') \<bar>rp_thickness test_params\<bar>] \<and>
    exported (snd (run_pipeline no_offset_kernel ''in.stp'' ''out.stp'' test_params)) = []"
    by blast
  from thickening_fallback [OF o(1,2), of test_params "''out.stp''"] o(3,4,5)
  have 2: "attempts (snd (run_pipeline outward_kernel ''in.stp'' ''out.stp'' test_params)) =
      ThickSolid (OneShape ''in.stp'') (- \<bar>rp_thickness test_params\<bar>) #
      ThickSolid (OneShape ''in.stp'') \<bar>rp_thickness test_params\<bar> #
      attempts (snd (phase4_to_6 outward_kernel
                       (ThickSolid (OneShape ''in.stp'') \<bar>rp_thickness test_params\<bar>)
                       ''out.stp'' test_params))"
    by (simp add: Let_def)
  from thickening_fallback [OF v(1,2), of test_params "''out.stp''"] v(3,4)
  have 3: "fst (run_pipeline inverted_kernel ''in.stp'' ''out.stp'' test_params) =
      fst (phase4_to_6 inverted_kernel
             (Reversed (ThickSolid (OneShape ''in.stp'') (- \<bar>rp_thickness test_params\<bar>)))
             ''out.stp'' test_params) \<and>
    ''Phase 3'' \<in> set (phases (snd (run_pipeline inverted_kernel ''in.stp'' ''out.stp'' test_params)))"
    by (simp add: Let_def)
  from n o v 1 2 3 show ?thesis
    unfolding t by simp
qed

section \<open>Validation of the clip parameters\<close>

text \<open>
  C8. \<open>validate\<close> fails exactly when the clip height is not positive, or the
  clearance is at least the source width, or the retention offset is at least the
  source depth, or the derived width or the derived depth is not positive. Its
  message names the first of these that holds: the height, the clearance against
  the groove width with both numbers, the offset against the groove depth with both
  numbers. When the clip parameters of a run fail validation the run returns a
  failure, constructs no profile shape, queries no target and writes no file; when
  the run had reached phase 4 the failure carries the message of \<open>validate\<close>.
\<close>

theorem validation_failure:
  "(\<not> fst (validate c) \<longleftrightarrow>
      cheight c \<le> 0 \<or>
      assembly_clearance c \<ge> width (groove_params c) \<or>
      retention_offset c \<ge> depth (groove_params c) \<or>
      width (groove_params c) - assembly_clearance c \<le> 0 \<or>
      depth (groove_params c) - retention_offset c \<le> 0) \<and>
   (cheight c \<le> 0 \<longrightarrow> snd (validate c) = [Txt ''Clip height must be positive'']) \<and>
   (0 < cheight c \<and> assembly_clearance c \<ge> width (groove_params c) \<longrightarrow>
      snd (validate c) =
        [Txt ''Assembly clearance ('', Num (assembly_clearance c),
         Txt ''mm) must be less than groove width ('',
         Num (width (groove_params c)), Txt ''mm)'']) \<and>
   (0 < cheight c \<and> assembly_clearance c < width (groove_params c) \<and>
    retention_offset c \<ge> depth (groove_params c) \<longrightarrow>
      snd (validate c) =
        [Txt ''Retention offset ('', Num (retention_offset c),
         Txt ''mm) must be less than groove depth ('',
         Num (depth (groove_params c)), Txt ''mm)'']) \<and>
   (\<not> fst (validate (pipeline_clip_params rp)) \<longrightarrow>
      (\<exists>m. fst (run_pipeline k i out rp) = Inr (False, m)) \<and>
      queries (snd (run_pipeline k i out rp)) = [] \<and>
      constructed (snd (run_pipeline k i out rp)) = [] \<and>
      exported (snd (run_pipeline k i out rp)) = [] \<and>
      (read_file k i = 1 \<and> is_valid k (OneShape i) \<and>
       fst (phase2 k (OneShape i) (rp_thickness rp)) \<noteq> None \<longrightarrow>
         fst (run_pipeline k i out rp) =
           Inr (False, Txt ''Invalid clip parameters: '' #
                         snd (validate (pipeline_clip_params rp)))))"
proof (intro conjI impI)
  show "\<not> fst (validate c) \<longleftrightarrow>
      cheight c \<le> 0 \<or>
      assembly_clearance c \<ge> width (groove_params c) \<or>
      retention_offset c \<ge> depth (groove_params c) \<or>
      width (groove_params c) - assembly_clearance c \<le> 0 \<or>
      depth (groove_params c) - retention_offset c \<le> 0"
    by (auto simp add: validate_def Let_def split: if_splits)
next
  assume "cheight c \<le> 0"
  then show "snd (validate c) = [Txt ''Clip height must be positive'']"
    by (simp add: validate_def)
next
  assume "0 < cheight c \<and> assembly_clearance c \<ge> width (groove_params c)"
  with less_not_le [of 0 "cheight c"]
  show "snd (validate c) =
        [Txt ''Assembly clearance ('', Num (assembly_clearance c),
         Txt ''mm) must be less than groove width ('',
         Num (width (groove_params c)), Txt ''mm)'']"
    by (simp add: validate_def)
next
  assume "0 < cheight c \<and> assembly_clearance c < width (groove_params c) \<and>
    retention_offset c \<ge> depth (groove_params c)"
  with less_not_le [of 0 "cheight c"]
    less_not_le [of "assembly_clearance c" "width (groove_params c)"]
  show "snd (validate c) =
        [Txt ''Retention offset ('', Num (retention_offset c),
         Txt ''mm) must be less than groove depth ('',
         Num (depth (groove_params c)), Txt ''mm)'']"
    by (simp add: validate_def)
next
  assume a: "\<not> fst (validate (pipeline_clip_params rp))"
  from run_pipeline_invalid_clip [OF a, of k i out]
  show "\<exists>m. fst (run_pipeline k i out rp) = Inr (False, m)"
    and "queries (snd (run_pipeline k i out rp)) = []"
    and "constructed (snd (run_pipeline k i out rp)) = []"
    and "exported (snd (run_pipeline k i out rp)) = []"
    by simp_all
next
  assume a: "\<not> fst (validate (pipeline_clip_params rp))"
    and b: "read_file k i = 1 \<and> is_valid k (OneShape i) \<and>
       fst (phase2 k (OneShape i) (rp_thickness rp)) \<noteq> None"
  from b obtain body where p: "fst (phase2 k (OneShape i) (rp_thickness rp)) = Some body"
    by auto
  from b have r: "read_file k i = 1" and v: "is_valid k (OneShape i)" by simp_all
  from run_pipeline_thickened(1) [OF r v p, of out] phase4_to_6_invalid [OF a, of k body out]
  show "fst (run_pipeline k i out rp) =
           Inr (False, Txt ''Invalid clip parameters: '' #
                         snd (validate (pipeline_clip_params rp)))"
    by simp
qed

theorem validation_failure_witness:
  "cheight flat_clip_params \<le> 0 \<and>
   validate flat_clip_params = (False, [Txt ''Clip height must be positive'']) \<and>
   0 < cheight wide_clip_params \<and>
   assembly_clearance wide_clip_params \<ge> width (groove_params wide_clip_params) \<and>
   validate wide_clip_params =
     (False, [Txt ''Assembly clearance ('', Num 6,
              Txt ''mm) must be less than groove width ('', Num 5, Txt ''mm)'']) \<and>
   0 < cheight deep_clip_params \<and>
   assembly_clearance deep_clip_params < width (groove_params deep_clip_params) \<and>
   retention_offset deep_clip_params \<ge> depth (groove_params deep_clip_params) \<and>
   validate deep_clip_params =
     (False, [Txt ''Retention offset ('', Num 5,
              Txt ''mm) must be less than groove depth ('', Num 5, Txt ''mm)'']) \<and>
   \<not> fst (validate (pipeline_clip_params wide_params)) \<and>
   read_file test_kernel ''in.stp'' = 1 \<and>
   is_valid test_kernel (OneShape ''in.stp'') \<and>
   fst (phase2 test_kernel (OneShape ''in.stp'') (rp_thickness wide_params)) \<noteq> None \<and>
   fst (run_pipeline test_kernel ''in.stp'' ''out.stp'' wide_params) =
     Inr (False, [Txt ''Invalid clip parameters: '', Txt ''Assembly clearance ('', Num 6,
                  Txt ''mm) must be less than groove width ('', Num 5, Txt ''mm)'']) \<and>
   constructed (snd (run_pipeline test_kernel ''in.stp'' ''out.stp'' wide_params)) = [] \<and>
   exported (snd (run_pipeline test_kernel ''in.stp'' ''out.stp'' wide_params)) = []"
proof -
  have f: "cheight flat_clip_params \<le> 0"
    by (simp add: flat_clip_params_def)
  have w: "0 < cheight wide_clip_params \<and>
      assembly_clearance wide_clip_params \<ge> width (groove_params wide_clip_params)"
    by (simp add: wide_clip_params_def verify_clip_params_def verify_groove_params_def
        GrooveParameters_default_def)
  have d: "0 < cheight deep_clip_params \<and>
      assembly_clearance deep_clip_params < width (groove_params deep_clip_params) \<and>
      retention_offset deep_clip_params \<ge> depth (groove_params deep_clip_params)"
    by (simp add: deep_clip_params_def verify_clip_params_def verify_groove_params_def
        GrooveParameters_default_def)
  have p: "\<not> fst (validate (pipeline_clip_params wide_params))"
    by (simp add: validate_def pipeline_clip_params_def pipeline_groove_params_def
        wide_params_def test_params_def GrooveParameters_default_def)
  have k: "read_file test_kernel ''in.stp'' = 1 \<and>
      is_valid test_kernel (OneShape ''in.stp'') \<and>
      fst (phase2 test_kernel (OneShape ''in.stp'') (rp_thickness wide_params)) \<noteq> None"
    by (simp add: test_kernel_def phase2_def thicken_def Let_def)
  have m: "snd (validate (pipeline_clip_params wide_params)) =
      [Txt ''Assembly clearance ('', Num 6,
       Txt ''mm) must be less than groove width ('', Num 5, Txt ''mm)'']"
    by (simp add: validate_def pipeline_clip_params_def pipeline_groove_params_def
        wide_params_def test_params_def GrooveParameters_default_def)
  from validation_failure [of flat_clip_params wide_params test_kernel "''in.stp''" "''out.stp''"] f
  have 1: "\<not> fst (validate flat_clip_params) \<and>
      snd (validate flat_clip_params) = [Txt ''Clip height must be positive'']"
    by blast
  from validation_failure [of wide_clip_params wide_params test_kernel "''in.stp''" "''out.stp''"] w
  have 2: "\<not> fst (validate wide_clip_params) \<and>
      snd (validate wide_clip_params) =
        [Txt ''Assembly clearance ('', Num (assembly_clearance wide_clip_params),
         Txt ''mm) must be less than groove width ('',
         Num (width (groove_params wide_clip_params)), Txt ''mm)'']"
    by blast
  from validation_failure [of deep_clip_params wide_params test_kernel "''in.stp''" "''out.stp''"] d
  have 3: "\<not> fst (validate deep_clip_params) \<and>
      snd (validate deep_clip_params) =
        [Txt ''Retention offset ('', Num (retention_offset deep_clip_params),
         Txt ''mm) must be less than groove depth ('',
         Num (depth (groove_params deep_clip_params)), Txt ''mm)'']"
    by blast
  from validation_failure [of wide_clip_params wide_params test_kernel "''in.stp''" "''out.stp''"] p k
  have 4: "fst (run_pipeline test_kernel ''in.stp'' ''out.stp'' wide_params) =
        Inr (False, Txt ''Invalid clip parameters: '' #
                      snd (validate (pipeline_clip_params wide_params))) \<and>
      constructed (snd (run_pipeline test_kernel ''in.stp'' ''out.stp'' wide_params)) = [] \<and>
      exported (snd (run_pipeline test_kernel ''in.stp'' ''out.stp'' wide_params)) = []"
    by blast
  have e: "\<And>x. \<not> fst x \<Longrightarrow> x = (False, snd x)"
    by (simp add: prod_eq_iff)
  from 1 2 3 have "validate flat_clip_params = (False, [Txt ''Clip height must be positive''])"
    and "validate wide_clip_params =
      (False, [Txt ''Assembly clearance ('', Num 6,
               Txt ''mm) must be less than groove width ('', Num 5, Txt ''mm)''])"
    and "validate deep_clip_params =
      (False, [Txt ''Retention offset ('', Num 5,
               Txt ''mm) must be less than groove depth ('', Num 5, Txt ''mm)''])"
    by (simp_all add: prod_eq_iff wide_clip_params_def deep_clip_params_def
        verify_clip_params_def verify_groove_params_def GrooveParameters_default_def)
  with f w d p k 4 m show ?thesis by simp
qed

section \<open>Boolean assembly\<close>

lemma combine_tools_events:
  "queries (snd (combine_tools k tb ts)) = [] \<and>
   constructed (snd (combine_tools k tb ts)) = [] \<and>
   exported (snd (combine_tools k tb ts)) = []"
  by (induction ts arbitrary: tb) (simp_all add: Let_def case_prod_beta)

lemma sequential_cut_events:
  "queries (snd (sequential_cut k s ts)) = [] \<and>
   constructed (snd (sequential_cut k s ts)) = [] \<and>
   exported (snd (sequential_cut k s ts)) = []"
  by (induction ts arbitrary: s) (simp_all add: Let_def case_prod_beta)

lemma sequential_fuse_events:
  "queries (snd (sequential_fuse k s ts)) = [] \<and>
   constructed (snd (sequential_fuse k s ts)) = [] \<and>
   exported (snd (sequential_fuse k s ts)) = []"
  by (induction ts arbitrary: s) (simp_all add: Let_def case_prod_beta)

lemma cut_grooves_events:
  "queries (snd (cut_grooves k b gs)) = [] \<and>
   constructed (snd (cut_grooves k b gs)) = [] \<and>
   exported (snd (cut_grooves k b gs)) = []"
proof (cases gs)
  case Nil
  then show ?thesis by (simp add: cut_grooves_def)
next
  case (Cons g gs')
  obtain tb e1 where c: "combine_tools k g gs' = (tb, e1)"
    by (cases "combine_tools k g gs'")
  obtain r e2 where s: "sequential_cut k b (g # gs') = (r, e2)"
    by (cases "sequential_cut k b (g # gs')")
  from combine_tools_events [of k g gs'] c
  have 1: "queries e1 = []" "constructed e1 = []" "exported e1 = []" by simp_all
  from sequential_cut_events [of k b "g # gs'"] s
  have 2: "queries e2 = []" "constructed e2 = []" "exported e2 = []" by simp_all
  show ?thesis
    using Cons c s 1 2 by (simp add: cut_grooves_def Let_def readings_append)
qed

lemma fuse_clips_events:
  "queries (snd (fuse_clips k b cs)) = [] \<and>
   constructed (snd (fuse_clips k b cs)) = [] \<and>
   exported (snd (fuse_clips k b cs)) = []"
proof (cases cs)
  case Nil
  then show ?thesis by (simp add: fuse_clips_def)
next
  case (Cons c cs')
  obtain tb e1 where c: "combine_tools k c cs' = (tb, e1)"
    by (cases "combine_tools k c cs'")
  obtain r e2 where s: "sequential_fuse k b (c # cs') = (r, e2)"
    by (cases "sequential_fuse k b (c # cs')")
  from combine_tools_events [of k c cs'] c
  have 1: "queries e1 = []" "constructed e1 = []" "exported e1 = []" by simp_all
  from sequential_fuse_events [of k b "c # cs'"] s
  have 2: "queries e2 = []" "constructed e2 = []" "exported e2 = []" by simp_all
  show ?thesis
    using Cons c s 1 2 by (simp add: fuse_clips_def Let_def readings_append)
qed

text \<open>
  In a sequential fallback a step that is not done leaves the running solid as it
  is, and a step that is done replaces it.
\<close>

lemma sequential_cut_step:
  "fst (sequential_cut k s (t # ts)) =
     fst (sequential_cut k (if is_done k (Cut s t 0.1) then Cut s t 0.1 else s) ts)"
  by (simp add: Let_def case_prod_beta)

lemma sequential_fuse_step:
  "fst (sequential_fuse k s (t # ts)) =
     fst (sequential_fuse k (if is_done k (Fuse s t 0.1) then Fuse s t 0.1 else s) ts)"
  by (simp add: Let_def case_prod_beta)

text \<open>
  The clip fusion takes the bulk result when the bulk fusion is done and the
  sequential result otherwise.
\<close>

lemma fuse_clips_bulk:
  "is_done k (Fuse b (fst (combine_tools k c cs)) 0.1) \<Longrightarrow>
   fst (fuse_clips k b (c # cs)) = Fuse b (fst (combine_tools k c cs)) 0.1"
  by (simp add: fuse_clips_def Let_def case_prod_beta del: sequential_fuse.simps)

lemma fuse_clips_fallback:
  "\<not> is_done k (Fuse b (fst (combine_tools k c cs)) 0.1) \<Longrightarrow>
   fst (fuse_clips k b (c # cs)) = fst (sequential_fuse k b (c # cs))"
  by (simp add: fuse_clips_def Let_def case_prod_beta del: sequential_fuse.simps)

text \<open>
  The groove cut takes the sequential result whenever the mass of an empty property
  set is zero, whether the bulk cut is done or not.
\<close>

lemma cut_grooves_always_sequential:
  "empty_mass k = 0 \<Longrightarrow> fst (cut_grooves k b gs) = fst (sequential_cut k b gs)"
proof (cases gs)
  case Nil
  then show ?thesis by (simp add: cut_grooves_def)
next
  case (Cons g gs')
  assume "empty_mass k = 0"
  with Cons show ?thesis
    by (simp add: cut_grooves_def Let_def case_prod_beta del: sequential_cut.simps)
qed

text \<open>
  C3. The claim is that in both phases the result of the bulk operation becomes the
  stage result when the bulk operation is done. In the groove cut with two grooves,
  on a kernel where every operation is done, the bulk cut
  \<open>Cut body (Fuse a b)\<close> is attempted and done, and the stage result is the
  sequential \<open>Cut (Cut body a) b\<close>.
\<close>

theorem bulk_cut_result_discarded:
  "is_done test_kernel (Cut test_body (Fuse groove_a groove_b 0.1) 0.1) \<and>
   empty_mass test_kernel = 0 \<and>
   cut_grooves test_kernel test_body [groove_a, groove_b] =
     (Cut (Cut test_body groove_a 0.1) groove_b 0.1,
      [Op (Fuse groove_a groove_b 0.1),
       Op (Cut test_body (Fuse groove_a groove_b 0.1) 0.1),
       Op (Cut test_body groove_a 0.1),
       Op (Cut (Cut test_body groove_a 0.1) groove_b 0.1)]) \<and>
   fuse_clips test_kernel test_body [groove_a, groove_b] =
     (Fuse test_body (Fuse groove_a groove_b 0.1) 0.1,
      [Op (Fuse groove_a groove_b 0.1),
       Op (Fuse test_body (Fuse groove_a groove_b 0.1) 0.1)])"
  by (simp add: cut_grooves_def fuse_clips_def test_kernel_def Let_def)

section \<open>Placement\<close>

lemma derive_from_groove_ok:
  "fillet_radius (groove_params (params g)) \<le> 0 \<Longrightarrow>
   \<exists>d g'. derive_from_groove g = Inr (d, g') \<and> params g' = params g"
  by (cases "derived_groove_params g")
     (simp_all add: derive_from_groove_def Let_def le_not_less)

lemma clip_create_shape_ok:
  assumes "fillet_radius (groove_params (params g)) \<le> 0"
  shows "\<exists>s g'. clip_create_shape g = Inr (s, g') \<and> params g' = params g"
proof -
  from derive_from_groove_ok [OF assms]
  obtain d g' where "derive_from_groove g = Inr (d, g')" "params g' = params g"
    by blast
  then show ?thesis
    by (simp add: clip_create_shape_def Let_def)
qed

lemma clip_place_shape_ok:
  assumes "fillet_radius (groove_params (params g)) \<le> 0"
  shows "\<exists>s g'. clip_place_shape g c l n t = Inr (s, g') \<and> params g' = params g"
proof -
  from derive_from_groove_ok [OF assms]
  obtain d g' where "derive_from_groove g = Inr (d, g')" "params g' = params g"
    by blast
  then show ?thesis
    by (simp add: clip_place_shape_def)
qed

lemma place_one_ok:
  assumes "fillet_radius (groove_params (params cg)) \<le> 0"
  shows "\<exists>cg' gs' cs' ev. place_one k gp b t (cg, gs, cs) = (Inr (cg', gs', cs'), ev) \<and>
           params cg' = params cg \<and> queries ev = [t] \<and> exported ev = []"
proof (cases "closest k t b")
  case NoSolution
  then show ?thesis by (simp add: place_one_def)
next
  case (OnOther p)
  then show ?thesis by (simp add: place_one_def)
next
  case (OnFace p n)
  show ?thesis
  proof (cases n)
    case None
    with OnFace show ?thesis by (simp add: place_one_def)
  next
    case (Some normal)
    from clip_create_shape_ok [OF assms]
    obtain s g1 where 1: "clip_create_shape cg = Inr (s, g1)" "params g1 = params cg"
      by blast
    from assms 1(2) have "fillet_radius (groove_params (params g1)) \<le> 0" by simp
    from clip_place_shape_ok [OF this, of s p normal None]
    obtain s2 g2 where 2: "clip_place_shape g1 s p normal None = Inr (s2, g2)"
      "params g2 = params g1"
      by blast
    from OnFace Some 1 2 show ?thesis
      by (simp add: place_one_def Let_def)
  qed
qed

lemma place_all_ok:
  "fillet_radius (groove_params (params cg)) \<le> 0 \<Longrightarrow>
   \<exists>cg' gs' cs' ev. place_all k gp b ts (cg, gs, cs) = (Inr (cg', gs', cs'), ev) \<and>
      queries ev = ts \<and> exported ev = []"
proof (induction ts arbitrary: cg gs cs)
  case Nil
  then show ?case by simp
next
  case (Cons t ts)
  from place_one_ok [OF Cons.prems, of k gp b t gs cs]
  obtain cg' gs' cs' ev where 1:
    "place_one k gp b t (cg, gs, cs) = (Inr (cg', gs', cs'), ev)"
    "params cg' = params cg" "queries ev = [t]" "exported ev = []"
    by blast
  from Cons.prems 1(2) have "fillet_radius (groove_params (params cg')) \<le> 0" by simp
  from Cons.IH [OF this, of gs' cs']
  obtain cg2 gs2 cs2 ev' where 2:
    "place_all k gp b ts (cg', gs', cs') = (Inr (cg2, gs2, cs2), ev')"
    "queries ev' = ts" "exported ev' = []"
    by blast
  from 1 2 show ?case
    by (auto simp add: readings_append)
qed

lemma phase6_events:
  "queries (snd (phase6 k s out)) = []"
  "constructed (snd (phase6 k s out)) = []"
  "fst (phase6 k s out) =
     (if write_step k out s = 1 then (True, [Txt ''Success'']) else (False, [Txt ''Export Failed'']))"
  "hd (exported (snd (phase6 k s out))) = (out, s)"
  "exported (snd (phase6 k s out)) \<noteq> []"
  by (simp_all add: phase6_def Let_def split: option.splits)

text \<open>
  A run that reaches the placement queries the targets of the slice, one after the
  other, and no other point.
\<close>

lemma phase4_to_6_queries:
  assumes "fst (validate (pipeline_clip_params rp))"
  shows "queries (snd (phase4_to_6 k b out rp)) =
           slice_to (rp_groove_count rp) REFERENCE_CENTROIDS"
proof -
  obtain m where v: "validate (pipeline_clip_params rp) = (True, m)"
    using assms by (cases "validate (pipeline_clip_params rp)") simp
  have f: "fillet_radius (groove_params (params (ClipGenerator_init (pipeline_clip_params rp)))) \<le> 0"
    by (simp add: ClipGenerator_init_def pipeline_clip_params_def pipeline_groove_params_def
        GrooveParameters_default_def)
  from place_all_ok [OF f, of k "pipeline_groove_params rp" b
      "slice_to (rp_groove_count rp) REFERENCE_CENTROIDS" "[]" "[]"]
  obtain cg gs cs ev where p:
    "place_all k (pipeline_groove_params rp) b (slice_to (rp_groove_count rp) REFERENCE_CENTROIDS)
       (ClipGenerator_init (pipeline_clip_params rp), [], []) = (Inr (cg, gs, cs), ev)"
    "queries ev = slice_to (rp_groove_count rp) REFERENCE_CENTROIDS"
    by blast
  obtain s1 ec where c: "cut_grooves k b gs = (s1, ec)"
    by (cases "cut_grooves k b gs")
  obtain s2 ef where u: "fuse_clips k s1 cs = (s2, ef)"
    by (cases "fuse_clips k s1 cs")
  obtain ok e5 where h: "check_validity k s2 ''Final Output'' = (ok, e5)"
    by (cases "check_validity k s2 ''Final Output''")
  obtain res e6 where x: "phase6 k s2 out = (res, e6)"
    by (cases "phase6 k s2 out")
  have q: "queries ec = []" "queries ef = []" "queries e5 = []" "queries e6 = []"
    using cut_grooves_events [of k b gs] c fuse_clips_events [of k s1 cs] u
      check_validity_events(2) [of k s2 "''Final Output''"] h
      phase6_events(1) [of k s2 out] x
    by simp_all
  show ?thesis
    using v p c u h x q
    by (simp add: phase4_to_6_def Let_def readings_append)
qed

lemma slice_to_all: "7 \<le> n \<Longrightarrow> slice_to n REFERENCE_CENTROIDS = REFERENCE_CENTROIDS"
  by (simp add: slice_to_def REFERENCE_CENTROIDS_def)

lemma slice_to_count:
  "0 \<le> n \<Longrightarrow> n \<le> 7 \<Longrightarrow> length (slice_to n REFERENCE_CENTROIDS) = nat n"
  by (simp add: slice_to_def REFERENCE_CENTROIDS_def)

text \<open>
  C10. The claim is that a run with count \<open>n\<close> from 1 to 100 attempts placement at
  the first \<open>n\<close> reference points. With the count 10, which \<open>get_groove_count\<close>
  returns on an empty line, a run on a kernel where everything succeeds queries the
  seven reference points and no more.
\<close>

theorem count_above_reference_points:
  "get_groove_count None = Some 10 \<and>
   get_groove_count (Some 100) = Some 100 \<and>
   rp_groove_count default_count_params = 10 \<and>
   queries (snd (run_pipeline test_kernel ''in.stp'' ''out.stp'' default_count_params)) =
     REFERENCE_CENTROIDS \<and>
   length (queries (snd (run_pipeline test_kernel ''in.stp'' ''out.stp'' default_count_params))) = 7"
proof -
  have r: "read_file test_kernel ''in.stp'' = 1" and i: "is_valid test_kernel (OneShape ''in.stp'')"
    by (simp_all add: test_kernel_def)
  have d: "is_done test_kernel
             (ThickSolid (OneShape ''in.stp'') (- \<bar>rp_thickness default_count_params\<bar>))"
    by (simp add: test_kernel_def)
  have v: "fst (validate (pipeline_clip_params default_count_params))"
    by (simp add: validate_def pipeline_clip_params_def pipeline_groove_params_def
        default_count_params_def test_params_def GrooveParameters_default_def)
  have n: "rp_groove_count default_count_params = 10"
    by (simp add: default_count_params_def)
  from phase2_first_done [OF d]
  obtain body where p:
    "fst (phase2 test_kernel (OneShape ''in.stp'') (rp_thickness default_count_params)) = Some body"
    by blast
  from run_pipeline_thickened(3) [OF r i p, of "''out.stp''"]
    phase4_to_6_queries [OF v, of test_kernel body "''out.stp''"]
  have "queries (snd (run_pipeline test_kernel ''in.stp'' ''out.stp'' default_count_params)) =
      slice_to 10 REFERENCE_CENTROIDS"
    by (simp add: n)
  then have q: "queries (snd (run_pipeline test_kernel ''in.stp'' ''out.stp'' default_count_params)) =
      REFERENCE_CENTROIDS"
    by (simp add: slice_to_all)
  show ?thesis
    using q n by (simp add: get_groove_count_def REFERENCE_CENTROIDS_def)
qed

section \<open>Final validation\<close>

text \<open>
  The value of the final validity check plays no part in the outcome of phases 4 to
  6: past the placement, the result is a success exactly when the STEP write
  returns 1.
\<close>

lemma phase4_to_6_result:
  assumes "fst (validate (pipeline_clip_params rp))"
  shows "\<exists>s. exported (snd (phase4_to_6 k b out rp)) \<noteq> [] \<and>
           hd (exported (snd (phase4_to_6 k b out rp))) = (out, s) \<and>
           fst (phase4_to_6 k b out rp) =
             Inr (if write_step k out s = 1 then (True, [Txt ''Success''])
                  else (False, [Txt ''Export Failed'']))"
proof -
  obtain m where v: "validate (pipeline_clip_params rp) = (True, m)"
    using assms by (cases "validate (pipeline_clip_params rp)") simp
  have f: "fillet_radius (groove_params (params (ClipGenerator_init (pipeline_clip_params rp)))) \<le> 0"
    by (simp add: ClipGenerator_init_def pipeline_clip_params_def pipeline_groove_params_def
        GrooveParameters_default_def)
  from place_all_ok [OF f, of k "pipeline_groove_params rp" b
      "slice_to (rp_groove_count rp) REFERENCE_CENTROIDS" "[]" "[]"]
  obtain cg gs cs ev where p:
    "place_all k (pipeline_groove_params rp) b (slice_to (rp_groove_count rp) REFERENCE_CENTROIDS)
       (ClipGenerator_init (pipeline_clip_params rp), [], []) = (Inr (cg, gs, cs), ev)"
    "exported ev = []"
    by blast
  obtain s1 ec where c: "cut_grooves k b gs = (s1, ec)"
    by (cases "cut_grooves k b gs")
  obtain s2 ef where u: "fuse_clips k s1 cs = (s2, ef)"
    by (cases "fuse_clips k s1 cs")
  obtain ok e5 where h: "check_validity k s2 ''Final Output'' = (ok, e5)"
    by (cases "check_validity k s2 ''Final Output''")
  obtain res e6 where x: "phase6 k s2 out = (res, e6)"
    by (cases "phase6 k s2 out")
  have q: "exported ec = []" "exported ef = []" "exported e5 = []"
    using cut_grooves_events [of k b gs] c fuse_clips_events [of k s1 cs] u
      check_validity_events(4) [of k s2 "''Final Output''"] h
    by simp_all
  have y: "res = (if write_step k out s2 = 1 then (True, [Txt ''Success''])
                  else (False, [Txt ''Export Failed'']))"
    "hd (exported e6) = (out, s2)" "exported e6 \<noteq> []"
    using phase6_events(3,4,5) [of k s2 out] x by simp_all
  have "exported (snd (phase4_to_6 k b out rp)) = exported e6 \<and>
        fst (phase4_to_6 k b out rp) = Inr res"
    using v p c u h x q
    by (simp add: phase4_to_6_def Let_def readings_append)
  with y show ?thesis by auto
qed

text \<open>
  C2. The claim is that a run whose final validity check reports the assembled solid
  invalid returns a failure and does not export. On a kernel where only the input
  is valid, the run logs that the final output is invalid, writes the STEP file and
  the preview, and returns success.
\<close>

theorem final_validity_ignored:
  "\<not> is_valid invalid_final_kernel
       (Fuse (Cut (ThickSolid (OneShape ''in.stp'') (- 2.65))
                (Placed (MakeBox (- 2.5, - 5, - 2.5) 5 10 2.5) (596.11, 736.90, 567.51) (0, 0, 1))
                0.1)
          (Placed (Translated (MakeBox (- 2.4, - 10, - 2.4) 4.8 20 2.4) (0, 0, - 0.1))
             (596.11, 736.90, 567.51) (0, 0, 1))
          0.1) \<and>
   fst (run_pipeline invalid_final_kernel ''in.stp'' ''out.stp'' test_params) =
     Inr (True, [Txt ''Success'']) \<and>
   Log ''Validation'' [Txt ''Final Output'', Txt '' is INVALID.'']
     \<in> set (snd (run_pipeline invalid_final_kernel ''in.stp'' ''out.stp'' test_params)) \<and>
   exported (snd (run_pipeline invalid_final_kernel ''in.stp'' ''out.stp'' test_params)) =
     [(''out.stp'',
       Fuse (Cut (ThickSolid (OneShape ''in.stp'') (- 2.65))
               (Placed (MakeBox (- 2.5, - 5, - 2.5) 5 10 2.5) (596.11, 736.90, 567.51) (0, 0, 1))
               0.1)
         (Placed (Translated (MakeBox (- 2.4, - 10, - 2.4) 4.8 20 2.4) (0, 0, - 0.1))
            (596.11, 736.90, 567.51) (0, 0, 1))
         0.1),
      (''out.stl'',
       Fuse (Cut (ThickSolid (OneShape ''in.stp'') (- 2.65))
               (Placed (MakeBox (- 2.5, - 5, - 2.5) 5 10 2.5) (596.11, 736.90, 567.51) (0, 0, 1))
               0.1)
         (Placed (Translated (MakeBox (- 2.4, - 10, - 2.4) 4.8 20 2.4) (0, 0, - 0.1))
            (596.11, 736.90, 567.51) (0, 0, 1))
         0.1)]"
  by (simp add: run_pipeline_def check_validity_def phase2_def thicken_def phase3_def
      phase4_to_6_def pipeline_clip_params_def pipeline_groove_params_def
      GrooveParameters_default_def validate_def slice_to_def REFERENCE_CENTROIDS_def
      place_one_def create_shape_def place_shape_def clip_create_shape_def clip_place_shape_def
      derive_from_groove_def ClipGenerator_init_def cut_grooves_def fuse_clips_def phase6_def
      Let_def invalid_final_kernel_def test_kernel_def test_params_def replace.simps)

end
